theory Spec2Isabelle
  imports Main "HOL-Library.AList"
begin

text \<open>
  A model of the two front-ends of the stem separator: \<^verbatim>\<open>run_demucs_debug\<close> of the web
  application (\<^verbatim>\<open>app.py\<close>) and \<^verbatim>\<open>locate_output_dir\<close> and the \<^verbatim>\<open>worker\<close> thread of the desktop
  application (\<^verbatim>\<open>gui_vocal_separator.py\<close>). Both build a command line for the external
  tool, run it, look for the directory it wrote, pick the vocals and the instrumental
  file by name, and report them; the web job also copies them into its job folder.

  The file system is an explicit value that the functions take and return, exceptions
  are results of type \<open>error + 'a\<close>, the external tool is a parameter, and the random
  job identifier is an argument. Paths follow POSIX.
\<close>

section \<open>Python strings\<close>

text \<open>
  File names and paths are byte strings. \<^verbatim>\<open>str.lower\<close> is modelled on the ASCII letters,
  which is all that the keywords tested by the stem classifier (\<^verbatim>\<open>vocals\<close>, \<^verbatim>\<open>no_\<close>,
  \<^verbatim>\<open>no_vocals\<close>, \<^verbatim>\<open>accompaniment\<close>, \<^verbatim>\<open>other\<close>) can see.
\<close>

definition lower_char :: "char \<Rightarrow> char" where
  "lower_char c =
     (case map_of (zip ''ABCDEFGHIJKLMNOPQRSTUVWXYZ'' ''abcdefghijklmnopqrstuvwxyz'') c of
        None \<Rightarrow> c
      | Some l \<Rightarrow> l)"

definition lower :: "string \<Rightarrow> string" where
  "lower s = map lower_char s"

text \<open>\<^verbatim>\<open>s.startswith(p)\<close> and \<^verbatim>\<open>sub in s\<close>.\<close>

primrec startswith :: "string \<Rightarrow> string \<Rightarrow> bool" where
  "startswith s [] = True"
| "startswith s (p # ps) = (case s of [] \<Rightarrow> False | c # cs \<Rightarrow> c = p \<and> startswith cs ps)"

primrec contains :: "string \<Rightarrow> string \<Rightarrow> bool" where
  "contains [] sub = (sub = [])"
| "contains (c # cs) sub = (startswith (c # cs) sub \<or> contains cs sub)"

definition endswith :: "string \<Rightarrow> string \<Rightarrow> bool" where
  "endswith s p = startswith (rev s) (rev p)"

text \<open>\<^verbatim>\<open>s.rfind(c)\<close>: the index of the last \<open>c\<close>, \<open>None\<close> for Python's \<open>-1\<close>.\<close>

definition rfind :: "string \<Rightarrow> char \<Rightarrow> nat option" where
  "rfind s c =
     (if c \<in> set s then Some (length s - 1 - length (takeWhile (\<lambda>x. x \<noteq> c) (rev s)))
      else None)"

text \<open>\<^verbatim>\<open>s.split(sep)\<close> for a one-character separator.\<close>

fun str_split :: "char \<Rightarrow> string \<Rightarrow> string list" where
  "str_split sep [] = [[]]"
| "str_split sep (c # cs) =
     (if c = sep then [] # str_split sep cs
      else (case str_split sep cs of
              [] \<Rightarrow> [[c]]
            | w # ws \<Rightarrow> (c # w) # ws))"

text \<open>\<^verbatim>\<open>sep.join(xs)\<close>.\<close>

fun str_join :: "string \<Rightarrow> string list \<Rightarrow> string" where
  "str_join sep [] = []"
| "str_join sep [x] = x"
| "str_join sep (x # y # ys) = x @ sep @ str_join sep (y # ys)"

text \<open>\<^verbatim>\<open>str(n)\<close> for an integer, as the f-strings of the error messages format it.\<close>

fun str_nat :: "nat \<Rightarrow> string" where
  "str_nat n =
     (if n < 10 then [''0123456789'' ! n]
      else str_nat (n div 10) @ [''0123456789'' ! (n mod 10)])"

definition str_int :: "int \<Rightarrow> string" where
  "str_int i = (if i < 0 then ''-'' @ str_nat (nat (- i)) else str_nat (nat i))"


section \<open>Paths\<close>

subsection \<open>pathlib (web front-end)\<close>

text \<open>
  A \<^verbatim>\<open>pathlib.Path\<close> of the web front-end is absolute (\<^verbatim>\<open>BASE_DIR\<close> is resolved): it is
  the list of its components below the file-system root. \<^verbatim>\<open>name\<close>, \<^verbatim>\<open>suffix\<close> and
  \<^verbatim>\<open>stem\<close> are those of pathlib up to Python 3.13.
\<close>

type_synonym path = "string list"

definition str_path :: "path \<Rightarrow> string" where
  "str_path p = (if p = [] then ''/'' else concat (map (\<lambda>c. ''/'' @ c) p))"

definition name_of :: "path \<Rightarrow> string" where
  "name_of p = (if p = [] then [] else last p)"

definition name_suffix :: "string \<Rightarrow> string" where
  "name_suffix nm =
     (case rfind nm CHR ''.'' of
        None \<Rightarrow> []
      | Some i \<Rightarrow> if 0 < i \<and> i + 1 < length nm then drop i nm else [])"

definition name_stem :: "string \<Rightarrow> string" where
  "name_stem nm =
     (case rfind nm CHR ''.'' of
        None \<Rightarrow> nm
      | Some i \<Rightarrow> if 0 < i \<and> i + 1 < length nm then take i nm else nm)"

definition suffix :: "path \<Rightarrow> string" where
  "suffix p = name_suffix (name_of p)"

definition stem :: "path \<Rightarrow> string" where
  "stem p = name_stem (name_of p)"

subsection \<open>os.path (desktop front-end)\<close>

text \<open>
  The desktop front-end keeps paths as strings; these are the POSIX versions of
  \<^verbatim>\<open>os.path.join\<close>, \<^verbatim>\<open>os.path.basename\<close> and of \<^verbatim>\<open>pathlib.Path(s).stem\<close>.
\<close>

definition os_path_join :: "string \<Rightarrow> string \<Rightarrow> string" where
  "os_path_join a b =
     (if startswith b ''/'' then b
      else if a = [] \<or> endswith a ''/'' then a @ b
      else a @ ''/'' @ b)"

definition os_path_join3 :: "string \<Rightarrow> string \<Rightarrow> string \<Rightarrow> string" where
  "os_path_join3 a b c = os_path_join (os_path_join a b) c"

definition basename :: "string \<Rightarrow> string" where
  "basename p =
     (case rfind p CHR ''/'' of
        None \<Rightarrow> p
      | Some i \<Rightarrow> drop (i + 1) p)"

definition path_parts :: "string \<Rightarrow> string list" where
  "path_parts s = filter (\<lambda>c. c \<noteq> [] \<and> c \<noteq> ''.'') (str_split CHR ''/'' s)"

definition path_stem :: "string \<Rightarrow> string" where
  "path_stem s = name_stem (name_of (path_parts s))"


section \<open>File system\<close>

text \<open>
  The file system is a tree. A directory keeps its entries in the order in which
  \<^verbatim>\<open>os.listdir\<close> and \<^verbatim>\<open>os.walk\<close> enumerate them; a file keeps its content. Symbolic links,
  permissions and file metadata are not modelled.
\<close>

datatype node = File string | Dir "(string \<times> node) list"

datatype error = RuntimeError string | OSError string

fun is_dir_node :: "node \<Rightarrow> bool" where
  "is_dir_node (Dir es) = True"
| "is_dir_node (File c) = False"

text \<open>The node below \<open>n\<close> at a list of entry names.\<close>

fun lookup :: "node \<Rightarrow> path \<Rightarrow> node option" where
  "lookup n [] = Some n"
| "lookup (File c) (k # ks) = None"
| "lookup (Dir es) (k # ks) = (case map_of es k of None \<Rightarrow> None | Some ch \<Rightarrow> lookup ch ks)"

text \<open>
  Path resolution as the operating system does it, segment by segment from the
  directory \<open>cur\<close>: an empty segment and \<^verbatim>\<open>.\<close> stay, \<^verbatim>\<open>..\<close> goes up (the root is its own
  parent), and every segment needs a directory to start from.
\<close>

fun resolve :: "node \<Rightarrow> path \<Rightarrow> string list \<Rightarrow> path option" where
  "resolve fs cur [] = (case lookup fs cur of None \<Rightarrow> None | Some n \<Rightarrow> Some cur)"
| "resolve fs cur (c # cs) =
     (case lookup fs cur of
        Some (Dir es) \<Rightarrow>
          if c = [] \<or> c = ''.'' then resolve fs cur cs
          else if c = ''..'' then resolve fs (butlast cur) cs
          else resolve fs (cur @ [c]) cs
      | _ \<Rightarrow> None)"

definition node_at :: "node \<Rightarrow> path \<Rightarrow> node option" where
  "node_at fs p = (case resolve fs [] p of None \<Rightarrow> None | Some q \<Rightarrow> lookup fs q)"

text \<open>\<^verbatim>\<open>Path.is_dir()\<close>.\<close>

definition is_dir :: "node \<Rightarrow> path \<Rightarrow> bool" where
  "is_dir fs p = (case node_at fs p of Some (Dir es) \<Rightarrow> True | _ \<Rightarrow> False)"

text \<open>\<^verbatim>\<open>os.listdir(p)\<close>: the names of all entries, files and directories alike.\<close>

definition listdir_node :: "node option \<Rightarrow> error + string list" where
  "listdir_node n =
     (case n of
        None \<Rightarrow> Inl (OSError ''FileNotFoundError'')
      | Some (File c) \<Rightarrow> Inl (OSError ''NotADirectoryError'')
      | Some (Dir es) \<Rightarrow> Inr (map fst es))"

definition listdir :: "node \<Rightarrow> path \<Rightarrow> error + string list" where
  "listdir fs p = listdir_node (node_at fs p)"

text \<open>
  \<^verbatim>\<open>os.walk(top)\<close>, top-down: the triple of a directory (its path, the names of its
  sub-directories, the names of its other entries), then the walks of its
  sub-directories in order, each under the path \<open>join r name\<close>. A top that is not a
  directory yields nothing.
\<close>

fun walk :: "('p \<Rightarrow> string \<Rightarrow> 'p) \<Rightarrow> 'p \<Rightarrow> node \<Rightarrow> ('p \<times> string list \<times> string list) list"
  and walk_sub :: "('p \<Rightarrow> string \<Rightarrow> 'p) \<Rightarrow> 'p \<Rightarrow> (string \<times> node) list \<Rightarrow> ('p \<times> string list \<times> string list) list"
  where
  "walk join r (File c) = []"
| "walk join r (Dir es) =
     (r, map fst (filter (\<lambda>e. is_dir_node (snd e)) es),
         map fst (filter (\<lambda>e. \<not> is_dir_node (snd e)) es))
       # walk_sub join r es"
| "walk_sub join r [] = []"
| "walk_sub join r (e # es) = walk join (join r (fst e)) (snd e) @ walk_sub join r es"

definition os_walk :: "node \<Rightarrow> path \<Rightarrow> (path \<times> string list \<times> string list) list" where
  "os_walk fs tp =
     (case node_at fs tp of
        None \<Rightarrow> []
      | Some n \<Rightarrow> walk (\<lambda>p nm. p @ [nm]) tp n)"

text \<open>
  Writing the node \<open>n\<close> at a resolved path: an existing entry is replaced in place, a
  new one is added at the end of its directory. The callers check first that the
  parent is a directory.
\<close>

fun put :: "node \<Rightarrow> path \<Rightarrow> node \<Rightarrow> node" where
  "put fs [] n = n"
| "put (File c) (k # ks) n = File c"
| "put (Dir es) [k] n = Dir (AList.update k n es)"
| "put (Dir es) (k # k' # ks) n =
     (case map_of es k of
        None \<Rightarrow> Dir es
      | Some ch \<Rightarrow> Dir (AList.update k (put ch (k' # ks) n) es))"

text \<open>The place a path names when its last segment may not exist yet.\<close>

definition resolve_new :: "node \<Rightarrow> path \<Rightarrow> path option" where
  "resolve_new fs p =
     (case resolve fs [] p of
        Some q \<Rightarrow> Some q
      | None \<Rightarrow>
          if p = [] then None
          else (case resolve fs [] (butlast p) of
                  None \<Rightarrow> None
                | Some q \<Rightarrow>
                    (case lookup fs q of
                       Some (Dir es) \<Rightarrow> Some (q @ [last p])
                     | _ \<Rightarrow> None)))"

text \<open>\<^verbatim>\<open>Path.mkdir(exist_ok=True)\<close>, without \<^verbatim>\<open>parents\<close>.\<close>

definition mkdir :: "node \<Rightarrow> path \<Rightarrow> error + node" where
  "mkdir fs p =
     (case node_at fs p of
        Some (Dir es) \<Rightarrow> Inr fs
      | Some (File c) \<Rightarrow> Inl (OSError ''FileExistsError'')
      | None \<Rightarrow>
          (case resolve_new fs p of
             None \<Rightarrow> Inl (OSError ''FileNotFoundError'')
           | Some q \<Rightarrow> Inr (put fs q (Dir []))))"

text \<open>
  \<^verbatim>\<open>shutil.copy2(src, dst)\<close>: a destination that is a directory receives the file under
  the source's own name; the same file on both sides, a source that is missing or a
  directory, and a destination that is a directory or has no parent directory are
  errors; otherwise the destination holds the source's content afterwards.
\<close>

definition copyfile :: "node \<Rightarrow> path \<Rightarrow> path \<Rightarrow> error + node" where
  "copyfile fs src dst =
     (if resolve fs [] src \<noteq> None \<and> resolve fs [] src = resolve fs [] dst
      then Inl (OSError ''SameFileError'')
      else (case node_at fs src of
              None \<Rightarrow> Inl (OSError ''FileNotFoundError'')
            | Some (Dir es) \<Rightarrow> Inl (OSError ''IsADirectoryError'')
            | Some (File content) \<Rightarrow>
                (case resolve_new fs dst of
                   None \<Rightarrow> Inl (OSError ''FileNotFoundError'')
                 | Some q \<Rightarrow>
                     (case lookup fs q of
                        Some (Dir es) \<Rightarrow> Inl (OSError ''IsADirectoryError'')
                      | _ \<Rightarrow> Inr (put fs q (File content))))))"

definition copy2 :: "node \<Rightarrow> path \<Rightarrow> path \<Rightarrow> error + node" where
  "copy2 fs src dst =
     copyfile fs src (if is_dir fs dst then dst @ [name_of src] else dst)"

subsection \<open>String paths (desktop front-end)\<close>

text \<open>
  A string path is split at \<^verbatim>\<open>/\<close> and resolved from the root when it starts with
  \<^verbatim>\<open>/\<close>, from the working directory \<open>cwd\<close> otherwise; the empty string names nothing.
\<close>

definition os_stat :: "node \<Rightarrow> path \<Rightarrow> string \<Rightarrow> node option" where
  "os_stat fs cwd s =
     (if s = [] then None
      else (case resolve fs (if startswith s ''/'' then [] else cwd) (str_split CHR ''/'' s) of
              None \<Rightarrow> None
            | Some q \<Rightarrow> lookup fs q))"

definition os_path_isdir :: "node \<Rightarrow> path \<Rightarrow> string \<Rightarrow> bool" where
  "os_path_isdir fs cwd s = (case os_stat fs cwd s of Some (Dir es) \<Rightarrow> True | _ \<Rightarrow> False)"

definition os_listdir :: "node \<Rightarrow> path \<Rightarrow> string \<Rightarrow> error + string list" where
  "os_listdir fs cwd s = listdir_node (os_stat fs cwd s)"

definition os_walk_str :: "node \<Rightarrow> path \<Rightarrow> string \<Rightarrow> (string \<times> string list \<times> string list) list" where
  "os_walk_str fs cwd tp =
     (case os_stat fs cwd tp of
        None \<Rightarrow> []
      | Some n \<Rightarrow> walk os_path_join tp n)"


section \<open>Job submitter\<close>

definition MODEL_NAME :: string where
  "MODEL_NAME = ''htdemucs_ft''"

text \<open>The argument vector of \<^verbatim>\<open>run_demucs_debug\<close> (web).\<close>

definition demucs_cmd :: "path \<Rightarrow> path \<Rightarrow> string list" where
  "demucs_cmd out_root input_path =
     [''demucs'',
      ''--two-stems'', ''vocals'',
      ''-n'', MODEL_NAME,
      ''--shifts'', ''0'',
      ''--overlap'', ''0.05'',
      ''--jobs'', ''1'',
      ''--mp3'',
      ''--out'', str_path out_root,
      str_path input_path]"

text \<open>The argument vector of \<^verbatim>\<open>start_separation\<close> (desktop).\<close>

definition MODEL :: string where
  "MODEL = ''htdemucs_ft''"

definition FLAGS :: "string list" where
  "FLAGS = [''--two-stems=vocals'', ''-n'', MODEL, ''--shifts'', ''0'', ''--overlap'', ''0.05'',
            ''--jobs'', ''1'', ''--mp3'']"

definition separation_cmd :: "string \<Rightarrow> string \<Rightarrow> string list" where
  "separation_cmd out_root audio = [''demucs''] @ FLAGS @ [''--out'', out_root, audio]"


section \<open>Stem classifier\<close>

text \<open>
  The loop over \<^verbatim>\<open>os.listdir\<close> that both front-ends run. \<open>full\<close> builds the full path of
  an entry: \<^verbatim>\<open>model_dir / fn\<close> on the web, \<^verbatim>\<open>os.path.join(out_dir, fn)\<close> on the desktop.
  The state of the loop is the pair (\<open>vocals\<close>, \<open>inst\<close>), both \<open>None\<close> at the start.
\<close>

definition is_vocals :: "string \<Rightarrow> bool" where
  "is_vocals fn = (let low = lower fn in contains low ''vocals'' \<and> \<not> startswith low ''no_'')"

definition is_instrumental :: "string \<Rightarrow> bool" where
  "is_instrumental fn =
     (let low = lower fn
      in contains low ''no_vocals'' \<or> contains low ''accompaniment'' \<or> contains low ''other'')"

definition pick_step :: "(string \<Rightarrow> 'p) \<Rightarrow> 'p option \<times> 'p option \<Rightarrow> string \<Rightarrow> 'p option \<times> 'p option" where
  "pick_step full st fn =
     (let vocals = (if is_vocals fn then Some (full fn) else fst st);
          inst = (if is_instrumental fn then Some (full fn) else snd st)
      in (vocals, inst))"

definition pick_stems :: "(string \<Rightarrow> 'p) \<Rightarrow> string list \<Rightarrow> 'p option \<times> 'p option" where
  "pick_stems full listing = foldl (pick_step full) (None, None) listing"


section \<open>The external tool\<close>

text \<open>
  The separation tool is opaque: given its argument vector and the file system it
  either cannot be started (\<open>None\<close>, the \<^verbatim>\<open>FileNotFoundError\<close> of \<^verbatim>\<open>subprocess\<close>), or it
  exits with a return code and its merged output text; either way it leaves a file
  system behind, about which nothing is assumed.
\<close>

type_synonym tool = "string list \<Rightarrow> node \<Rightarrow> (int \<times> string) option \<times> node"


section \<open>Web front-end: \<^verbatim>\<open>run_demucs_debug\<close>\<close>

text \<open>
  The fallback search of the output locator. The inner loop stops at the first
  directory name equal to \<open>base\<close> (its \<^verbatim>\<open>break\<close>); the outer loop over the walk goes on,
  and a later match assigns \<open>found\<close> again.
\<close>

definition search_step :: "string \<Rightarrow> path option \<Rightarrow> path \<times> string list \<times> string list \<Rightarrow> path option" where
  "search_step base found w =
     (case w of (root, dirs, files) \<Rightarrow>
        (case find (\<lambda>d. d = base) dirs of
           None \<Rightarrow> found
         | Some d \<Rightarrow> Some (root @ [d])))"

definition search_walk :: "node \<Rightarrow> path \<Rightarrow> string \<Rightarrow> path option" where
  "search_walk fs out_root base = foldl (search_step base) None (os_walk fs out_root)"

definition locate_model_dir :: "node \<Rightarrow> path \<Rightarrow> string \<Rightarrow> error + path" where
  "locate_model_dir fs out_root base =
     (let model_dir = out_root @ [MODEL_NAME, base]
      in if is_dir fs model_dir then Inr model_dir
         else (case search_walk fs out_root base of
                 None \<Rightarrow> Inl (RuntimeError ''Could not locate Demucs output folder.'')
               | Some found \<Rightarrow> Inr found))"

text \<open>The copies into the job folder, with the names of the published files.\<close>

definition publish :: "node \<Rightarrow> path \<Rightarrow> string \<Rightarrow> path \<Rightarrow> path \<Rightarrow> (error + path \<times> path) \<times> node" where
  "publish fs job_dir base vocals inst =
     (let vocals_out = job_dir @ [base @ ''_vocals'' @ suffix vocals];
          inst_out = job_dir @ [base @ ''_instrumental'' @ suffix inst]
      in case copy2 fs vocals vocals_out of
           Inl e \<Rightarrow> (Inl e, fs)
         | Inr fs1 \<Rightarrow>
             (case copy2 fs1 inst inst_out of
                Inl e \<Rightarrow> (Inl e, fs1)
              | Inr fs2 \<Rightarrow> (Inr (vocals_out, inst_out), fs2)))"

text \<open>
  Everything after the tool has exited with code 0: locate, classify, publish. The
  result is the value returned or the exception raised, the file system, and the
  lines printed.
\<close>

definition collect :: "node \<Rightarrow> path \<Rightarrow> path \<Rightarrow> string \<Rightarrow> (error + path \<times> path) \<times> node \<times> string list" where
  "collect fs job_dir out_root base =
     (case locate_model_dir fs out_root base of
        Inl e \<Rightarrow> (Inl e, fs, [])
      | Inr model_dir \<Rightarrow>
          (let out1 = [''Located Demucs output folder: '' @ str_path model_dir]
           in case listdir fs model_dir of
                Inl e \<Rightarrow> (Inl e, fs, out1)
              | Inr listing \<Rightarrow>
                  (case pick_stems (\<lambda>fn. model_dir @ [fn]) listing of
                     (Some vocals, Some inst) \<Rightarrow>
                       (case publish fs job_dir base vocals inst of
                          (Inl e, fs1) \<Rightarrow> (Inl e, fs1, out1)
                        | (Inr (vocals_out, inst_out), fs1) \<Rightarrow>
                            (Inr (vocals_out, inst_out), fs1,
                             out1 @ [''Saved vocals to: '' @ str_path vocals_out,
                                     ''Saved instrumental to: '' @ str_path inst_out,
                                     ''------------------------------------------------------\<newline>'']))
                   | _ \<Rightarrow>
                       (Inl (RuntimeError ''Could not find vocals/instrumental files.''), fs, out1))))"

text \<open>
  The whole job. \<open>job_id\<close> stands for \<^verbatim>\<open>uuid.uuid4().hex\<close> and \<open>RESULTS_DIR\<close> for the global of
  that name.
\<close>

definition run_demucs_debug ::
  "tool \<Rightarrow> path \<Rightarrow> string \<Rightarrow> path \<Rightarrow> node \<Rightarrow> (error + path \<times> path) \<times> node \<times> string list" where
  "run_demucs_debug tool RESULTS_DIR job_id input_path fs =
     (let job_dir = RESULTS_DIR @ [job_id];
          out_root = job_dir @ [''raw'']
      in case mkdir fs job_dir of
           Inl e \<Rightarrow> (Inl e, fs, [])
         | Inr fs1 \<Rightarrow>
             (case mkdir fs1 out_root of
                Inl e \<Rightarrow> (Inl e, fs1, [])
              | Inr fs2 \<Rightarrow>
                  (let cmd = demucs_cmd out_root input_path;
                       out1 = [''\<newline>=================== DEMUCS COMMAND ==================='',
                               str_join '' '' cmd,
                               ''=======================================================\<newline>'']
                   in case tool cmd fs2 of
                        (None, fs3) \<Rightarrow> (Inl (OSError ''FileNotFoundError''), fs3, out1)
                      | (Some (returncode, output), fs3) \<Rightarrow>
                          (let out2 = out1 @ [''===== DEMUCS OUTPUT START ====='', output,
                                              ''===== DEMUCS OUTPUT END =====\<newline>'']
                           in if returncode \<noteq> 0
                              then (Inl (RuntimeError (''Demucs error (exit code '' @ str_int returncode
                                                       @ ''). See above output.'')), fs3, out2)
                              else (case collect fs3 job_dir out_root (stem input_path) of
                                      (res, fs4, out3) \<Rightarrow> (res, fs4, out2 @ out3))))))"


section \<open>Desktop front-end\<close>

text \<open>\<^verbatim>\<open>locate_output_dir\<close>: the first directory of the walk, the output root included, whose
  base name is the stem of the audio path.\<close>

definition locate_output_dir :: "node \<Rightarrow> path \<Rightarrow> string \<Rightarrow> string \<Rightarrow> string \<Rightarrow> string option" where
  "locate_output_dir fs cwd out_root model_name audio_path =
     (let base = path_stem audio_path;
          expected = os_path_join3 out_root model_name base
      in if os_path_isdir fs cwd expected then Some expected
         else find (\<lambda>r. basename r = base) (map fst (os_walk_str fs cwd out_root)))"

text \<open>The state of the window that \<^verbatim>\<open>worker\<close> changes: the text of the log pane and
  \<^verbatim>\<open>self.result_dir\<close>.\<close>

record gui =
  log_text :: string
  result_dir :: "string option"

definition append_log :: "gui \<Rightarrow> string \<Rightarrow> gui" where
  "append_log g text = g\<lparr>log_text := log_text g @ text\<rparr>"

text \<open>The \<^verbatim>\<open>except\<close> branch: a log line and the message of the error box. The message
  of an operating-system error is shortened to the name of its class.\<close>

definition report_error :: "gui \<Rightarrow> string \<Rightarrow> gui \<times> string option" where
  "report_error g msg = (append_log g (''\<newline>[ERROR] '' @ msg @ ''\<newline>''), Some msg)"

definition str_error :: "error \<Rightarrow> string" where
  "str_error e = (case e of RuntimeError msg \<Rightarrow> msg | OSError msg \<Rightarrow> msg)"

text \<open>The lines logged after the classification loop; an empty string is false in
  Python's \<^verbatim>\<open>if vocals:\<close>.\<close>

definition log_stems :: "string option \<times> string option \<Rightarrow> string \<Rightarrow> gui \<Rightarrow> gui" where
  "log_stems st out_dir g =
     (let g1 = append_log g ''\<newline>=== Done ===\<newline>'';
          g2 = (case fst st of
                  None \<Rightarrow> g1
                | Some vocals \<Rightarrow>
                    if vocals \<noteq> [] then append_log g1 (''Vocals:       '' @ vocals @ ''\<newline>'') else g1);
          g3 = (case snd st of
                  None \<Rightarrow> g2
                | Some instrumental \<Rightarrow>
                    if instrumental \<noteq> []
                    then append_log g2 (''Instrumental: '' @ instrumental @ ''\<newline>'') else g2)
      in if out_dir \<noteq> [] then append_log g3 (''Folder:       '' @ out_dir @ ''\<newline>'') else g3)"

definition tip :: string where
  "tip = ''\<newline>Tip: Click 'Open Output Folder' to view your files.\<newline>''"

text \<open>
  \<^verbatim>\<open>worker\<close>, the body of the background thread. The result is the window state, the
  message of the error box if one was shown, and the file system.
\<close>

definition worker :: "tool \<Rightarrow> path \<Rightarrow> string \<Rightarrow> string \<Rightarrow> node \<Rightarrow> gui \<Rightarrow> (gui \<times> string option) \<times> node" where
  "worker tool cwd out_root audio fs g =
     (case tool (separation_cmd out_root audio) fs of
        (None, fs1) \<Rightarrow> (report_error g ''FileNotFoundError'', fs1)
      | (Some (code, output), fs1) \<Rightarrow>
          (let g1 = append_log g output
           in if code \<noteq> 0
              then (report_error g1 (''Demucs exited with code '' @ str_int code), fs1)
              else
                (let out_dir = locate_output_dir fs1 cwd out_root MODEL audio;
                     g2 = g1\<lparr>result_dir := out_dir\<rparr>;
                     not_found = ((append_log (append_log g2 ''\<newline>Could not find output folder.\<newline>'') tip,
                                   None), fs1)
                 in case out_dir of
                      None \<Rightarrow> not_found
                    | Some d \<Rightarrow>
                        if d \<noteq> [] \<and> os_path_isdir fs1 cwd d
                        then (case os_listdir fs1 cwd d of
                                Inl e \<Rightarrow> (report_error g2 (str_error e), fs1)
                              | Inr listing \<Rightarrow>
                                  ((append_log (log_stems (pick_stems (os_path_join d) listing) d g2) tip,
                                    None), fs1))
                        else not_found)))"


section \<open>Directories of a tree\<close>

text \<open>The names of all directories strictly below a node, in the order of the tree.\<close>

fun dir_names :: "node \<Rightarrow> string list"
  and dir_names_sub :: "(string \<times> node) list \<Rightarrow> string list" where
  "dir_names (File c) = []"
| "dir_names (Dir es) = dir_names_sub es"
| "dir_names_sub [] = []"
| "dir_names_sub (e # es) =
     (if is_dir_node (snd e) then fst e # dir_names (snd e) else []) @ dir_names_sub es"


text \<open>A tree in which no directory lists a name twice.\<close>

fun distinct_names :: "node \<Rightarrow> bool"
  and distinct_names_sub :: "(string \<times> node) list \<Rightarrow> bool" where
  "distinct_names (File c) = True"
| "distinct_names (Dir es) = (distinct (map fst es) \<and> distinct_names_sub es)"
| "distinct_names_sub [] = True"
| "distinct_names_sub (e # es) = (distinct_names (snd e) \<and> distinct_names_sub es)"


section \<open>Paths without special segments\<close>

text \<open>
  A path is plain when none of its segments is empty, \<^verbatim>\<open>.\<close> or \<^verbatim>\<open>..\<close>; such a path
  resolves to itself. \<open>target\<close> is the file that \<^verbatim>\<open>copy2\<close> writes, and \<open>copied\<close> says that
  this file exists with the content of the source.
\<close>

definition plain :: "path \<Rightarrow> bool" where
  "plain p = (\<forall>c \<in> set p. c \<noteq> [] \<and> c \<noteq> ''.'' \<and> c \<noteq> ''..'')"

definition target :: "node \<Rightarrow> path \<Rightarrow> path \<Rightarrow> path" where
  "target fs src dst = (if is_dir fs dst then dst @ [name_of src] else dst)"

definition copied :: "node \<Rightarrow> path \<Rightarrow> path \<Rightarrow> bool" where
  "copied fs src dst =
     (\<exists>c. lookup fs src = Some (File c) \<and> lookup fs (target fs src dst) = Some (File c))"


section \<open>Example jobs\<close>

text \<open>
  An installation with an empty results directory and one upload, \<^verbatim>\<open>a.mp3\<close>; the job
  \<^verbatim>\<open>j1\<close> after its two \<^verbatim>\<open>mkdir\<close> calls, with a given staging tree \<^verbatim>\<open>raw\<close>; and a tool that
  exits with a given code after leaving a given staging tree.
\<close>

definition ex_fs :: node where
  "ex_fs = Dir [(''results'', Dir []), (''uploads'', Dir [(''a.mp3'', File ''RIFF'')])]"

definition ex_job_fs :: "node \<Rightarrow> node" where
  "ex_job_fs raw =
     Dir [(''results'', Dir [(''j1'', Dir [(''raw'', raw)])]),
          (''uploads'', Dir [(''a.mp3'', File ''RIFF'')])]"

definition ex_tool :: "int \<Rightarrow> node \<Rightarrow> tool" where
  "ex_tool code raw cmd fs = (Some (code, ''ok''), put fs [''results'', ''j1'', ''raw''] raw)"

definition ex_raw_other :: node where
  "ex_raw_other = Dir [(''htdemucs_ft'', Dir [(''a'', Dir [(''x_other.mp3'', File ''I'')])])]"

definition ex_raw_nested :: node where
  "ex_raw_nested =
     Dir [(''a'', Dir [(''vocals.mp3'', File ''V''), (''no_vocals.mp3'', File ''I''),
                       (''a'', Dir [])])]"

definition ex_gui :: gui where
  "ex_gui = \<lparr>log_text = [], result_dir = None\<rparr>"


text \<open>
  More staging trees: the tool's usual layout; a layout with another directory in
  place of the model name; a tree without any directory named \<^verbatim>\<open>a\<close>; the file system
  after the job on the usual layout has published; and a desktop file system whose
  output root is itself named like the audio file.
\<close>

definition ex_raw_v4 :: node where
  "ex_raw_v4 =
     Dir [(''v4'', Dir [(''a'', Dir [(''vocals.mp3'', File ''V''), (''no_vocals.mp3'', File ''I'')])])]"

definition ex_raw_log :: node where
  "ex_raw_log = Dir [(''logs'', Dir [(''run.txt'', File ''x'')])]"

definition ex_song_fs :: node where
  "ex_song_fs = Dir [(''music'', Dir [(''song.mp3'', File ''RIFF'')]), (''song'', Dir [])]"

definition ex_raw_demucs :: node where
  "ex_raw_demucs =
     Dir [(''htdemucs_ft'',
           Dir [(''a'', Dir [(''vocals.mp3'', File ''V''), (''no_vocals.mp3'', File ''I'')])])]"

definition ex_published_fs :: node where
  "ex_published_fs =
     Dir [(''results'',
           Dir [(''j1'', Dir [(''raw'', ex_raw_demucs),
                             (''a_vocals.mp3'', File ''V''),
                             (''a_instrumental.mp3'', File ''I'')])]),
          (''uploads'', Dir [(''a.mp3'', File ''RIFF'')])]"


section \<open>Properties\<close>

lemmas fs_eval = mkdir_def node_at_def resolve_new_def is_dir_def listdir_def listdir_node_def
  os_walk_def os_stat_def os_path_isdir_def os_listdir_def os_walk_str_def copy2_def
  copyfile_def

lemmas str_eval = os_path_join3_def os_path_join_def endswith_def path_stem_def path_parts_def
  name_stem_def name_suffix_def rfind_def basename_def stem_def suffix_def str_path_def
  str_int_def name_of_def

lemmas pick_eval = pick_stems_def pick_step_def is_vocals_def is_instrumental_def lower_def
  lower_char_def

lemmas ex_eval = ex_fs_def ex_job_fs_def ex_tool_def ex_gui_def MODEL_def MODEL_NAME_def

subsection \<open>Stem classifier\<close>

text \<open>The last match of each category wins.\<close>

lemma pick_stems_snoc:
  "pick_stems full (xs @ [x]) = pick_step full (pick_stems full xs) x"
  by (simp add: pick_stems_def)

lemma pick_stems_full:
  "(\<forall>v. fst (pick_stems full listing) = Some v \<longrightarrow> v \<in> full ` set listing)
   \<and> (\<forall>i. snd (pick_stems full listing) = Some i \<longrightarrow> i \<in> full ` set listing)"
proof (induction listing rule: rev_induct)
  case Nil
  then show ?case
    by (simp add: pick_stems_def)
next
  case (snoc x xs)
  then show ?case
    by (auto simp: pick_stems_snoc pick_step_def Let_def)
qed

lemma pick_stems_last_match:
  "pick_stems full listing
     = (map_option full (if filter is_vocals listing = [] then None
                         else Some (last (filter is_vocals listing))),
        map_option full (if filter is_instrumental listing = [] then None
                         else Some (last (filter is_instrumental listing))))"
proof (induction listing rule: rev_induct)
  case Nil
  then show ?case
    by (simp add: pick_stems_def)
next
  case (snoc x xs)
  then show ?case
    by (simp add: pick_stems_snoc pick_step_def Let_def)
qed

text \<open>With the names the tool writes, the \<^verbatim>\<open>no_\<close> check separates the two stems.\<close>

lemma pick_stems_demucs_names:
  "pick_stems full [''vocals.mp3'', ''no_vocals.mp3'']
     = (Some (full ''vocals.mp3''), Some (full ''no_vocals.mp3''))"
  by (simp add: pick_stems_def pick_step_def is_vocals_def is_instrumental_def
      lower_def lower_char_def)

text \<open>
  C1. For the listing \<^verbatim>\<open>["track_vocals.mp3", "track_no_vocals.mp3"]\<close> the classifier does
  not keep \<^verbatim>\<open>track_vocals.mp3\<close> as the vocals: \<^verbatim>\<open>track_no_vocals.mp3\<close> contains
  \<^verbatim>\<open>vocals\<close> and starts with \<^verbatim>\<open>track_\<close>, not with \<^verbatim>\<open>no_\<close>, so it passes the vocals test
  too, and being last in the listing it is both the vocals and the instrumental.
\<close>

theorem pick_stems_track_listing:
  "pick_stems full [''track_vocals.mp3'', ''track_no_vocals.mp3'']
     = (Some (full ''track_no_vocals.mp3''), Some (full ''track_no_vocals.mp3''))
   \<and> is_vocals ''track_no_vocals.mp3''"
  by (simp add: pick_stems_def pick_step_def is_vocals_def is_instrumental_def
      lower_def lower_char_def)

subsection \<open>Job submitter\<close>

text \<open>
  C9. For every input path and output root both front-ends build the argument vector
  of the fixed flags (two-stem mode on vocals, the model name, \<^verbatim>\<open>--shifts 0\<close>,
  \<^verbatim>\<open>--overlap 0.05\<close>, \<^verbatim>\<open>--jobs 1\<close>, \<^verbatim>\<open>--mp3\<close>), then \<^verbatim>\<open>--out\<close> and the output root, and
  the input path as the last argument.
\<close>

theorem cmd_fixed_flags:
  "demucs_cmd out_root input_path
     = [''demucs'', ''--two-stems'', ''vocals'', ''-n'', ''htdemucs_ft'', ''--shifts'', ''0'',
        ''--overlap'', ''0.05'', ''--jobs'', ''1'', ''--mp3''] @
       [''--out'', str_path out_root] @ [str_path input_path]
   \<and> separation_cmd out_dir audio
     = [''demucs'', ''--two-stems=vocals'', ''-n'', ''htdemucs_ft'', ''--shifts'', ''0'',
        ''--overlap'', ''0.05'', ''--jobs'', ''1'', ''--mp3''] @
       [''--out'', out_dir] @ [audio]
   \<and> last (demucs_cmd out_root input_path) = str_path input_path
   \<and> last (separation_cmd out_dir audio) = audio"
  by (simp add: demucs_cmd_def separation_cmd_def FLAGS_def MODEL_def MODEL_NAME_def)

subsection \<open>A successful job\<close>

text \<open>The job on the tool's usual layout publishes both stems.\<close>

lemma run_demucs_debug_example:
  "run_demucs_debug (ex_tool 0 ex_raw_demucs) [''results''] ''j1'' [''uploads'', ''a.mp3''] ex_fs
     = (Inr ([''results'', ''j1'', ''a_vocals.mp3''], [''results'', ''j1'', ''a_instrumental.mp3'']),
        ex_published_fs,
        [''\<newline>=================== DEMUCS COMMAND ==================='',
         ''demucs --two-stems vocals -n htdemucs_ft --shifts 0 --overlap 0.05 --jobs 1 --mp3 --out /results/j1/raw /uploads/a.mp3'',
         ''=======================================================\<newline>'',
         ''===== DEMUCS OUTPUT START ====='', ''ok'',
         ''===== DEMUCS OUTPUT END =====\<newline>'',
         ''Located Demucs output folder: /results/j1/raw/htdemucs_ft/a'',
         ''Saved vocals to: /results/j1/a_vocals.mp3'',
         ''Saved instrumental to: /results/j1/a_instrumental.mp3'',
         ''------------------------------------------------------\<newline>''])"
  by code_simp

subsection \<open>Process runner\<close>

text \<open>
  C4. Whenever the tool exits with a non-zero code the job fails with an error that
  carries that code, whatever the tool left in the output root. The file system is
  the one the tool left and the output stops after the tool's text: nothing was
  located, classified or published. On the desktop the log ends with the error line,
  the error box shows the message and \<^verbatim>\<open>result_dir\<close> keeps its old value.
\<close>

theorem nonzero_exit_fails:
  assumes "returncode \<noteq> 0"
  shows "(mkdir fs (RESULTS_DIR @ [job_id]) = Inr fs1 \<longrightarrow>
          mkdir fs1 (RESULTS_DIR @ [job_id, ''raw'']) = Inr fs2 \<longrightarrow>
          tool (demucs_cmd (RESULTS_DIR @ [job_id, ''raw'']) input_path) fs2
            = (Some (returncode, output), fs3) \<longrightarrow>
          run_demucs_debug tool RESULTS_DIR job_id input_path fs
            = (Inl (RuntimeError (''Demucs error (exit code '' @ str_int returncode
                                  @ ''). See above output.'')),
               fs3,
               [''\<newline>=================== DEMUCS COMMAND ==================='',
                str_join '' '' (demucs_cmd (RESULTS_DIR @ [job_id, ''raw'']) input_path),
                ''=======================================================\<newline>'',
                ''===== DEMUCS OUTPUT START ====='', output,
                ''===== DEMUCS OUTPUT END =====\<newline>'']))
       \<and> (tool (separation_cmd out_root audio) dfs = (Some (returncode, output), dfs1) \<longrightarrow>
          worker tool cwd out_root audio dfs g
            = ((g\<lparr>log_text := log_text g @ output @ ''\<newline>[ERROR] Demucs exited with code ''
                               @ str_int returncode @ ''\<newline>''\<rparr>,
                Some (''Demucs exited with code '' @ str_int returncode)), dfs1))"
  using assms
  by (simp add: run_demucs_debug_def worker_def Let_def report_error_def append_log_def)

theorem nonzero_exit_fails_witness:
  "(1::int) \<noteq> 0
   \<and> mkdir ex_fs [''results'', ''j1'']
       = Inr (Dir [(''results'', Dir [(''j1'', Dir [])]),
                   (''uploads'', Dir [(''a.mp3'', File ''RIFF'')])])
   \<and> mkdir (Dir [(''results'', Dir [(''j1'', Dir [])]),
                 (''uploads'', Dir [(''a.mp3'', File ''RIFF'')])]) [''results'', ''j1'', ''raw'']
       = Inr (ex_job_fs (Dir []))
   \<and> ex_tool 1 ex_raw_other (demucs_cmd [''results'', ''j1'', ''raw''] [''uploads'', ''a.mp3''])
        (ex_job_fs (Dir []))
       = (Some (1, ''ok''), ex_job_fs ex_raw_other)
   \<and> run_demucs_debug (ex_tool 1 ex_raw_other) [''results''] ''j1'' [''uploads'', ''a.mp3''] ex_fs
       = (Inl (RuntimeError ''Demucs error (exit code 1). See above output.''),
          ex_job_fs ex_raw_other,
          [''\<newline>=================== DEMUCS COMMAND ==================='',
           ''demucs --two-stems vocals -n htdemucs_ft --shifts 0 --overlap 0.05 --jobs 1 --mp3 --out /results/j1/raw /uploads/a.mp3'',
           ''=======================================================\<newline>'',
           ''===== DEMUCS OUTPUT START ====='', ''ok'',
           ''===== DEMUCS OUTPUT END =====\<newline>''])
   \<and> ex_tool 1 ex_raw_other (separation_cmd ''/results/j1/raw'' ''/uploads/a.mp3'')
        (ex_job_fs (Dir []))
       = (Some (1, ''ok''), ex_job_fs ex_raw_other)
   \<and> worker (ex_tool 1 ex_raw_other) [] ''/results/j1/raw'' ''/uploads/a.mp3''
        (ex_job_fs (Dir [])) ex_gui
       = ((\<lparr>log_text = ''ok\<newline>[ERROR] Demucs exited with code 1\<newline>'', result_dir = None\<rparr>,
           Some ''Demucs exited with code 1''), ex_job_fs ex_raw_other)"
proof -
  have m1: "mkdir ex_fs ([''results''] @ [''j1''])
       = Inr (Dir [(''results'', Dir [(''j1'', Dir [])]),
                   (''uploads'', Dir [(''a.mp3'', File ''RIFF'')])])"
    by (simp add: fs_eval ex_eval ex_raw_other_def)
  have m2: "mkdir (Dir [(''results'', Dir [(''j1'', Dir [])]),
                 (''uploads'', Dir [(''a.mp3'', File ''RIFF'')])]) ([''results''] @ [''j1'', ''raw''])
       = Inr (ex_job_fs (Dir []))"
    by (simp add: fs_eval ex_eval ex_raw_other_def)
  have t: "ex_tool 1 ex_raw_other c (ex_job_fs (Dir [])) = (Some (1, ''ok''), ex_job_fs ex_raw_other)"
    for c
    by (simp add: ex_eval ex_raw_other_def)
  have ne: "(1::int) \<noteq> 0"
    by simp
  from nonzero_exit_fails [OF ne, of ex_fs "[''results'']" "''j1''" _ _ "ex_tool 1 ex_raw_other"
      "[''uploads'', ''a.mp3'']" "''ok''" "ex_job_fs ex_raw_other" "''/results/j1/raw''"
      "''/uploads/a.mp3''" "ex_job_fs (Dir [])" "ex_job_fs ex_raw_other" "[]" ex_gui]
    m1 m2 t
  show ?thesis
    by (simp add: demucs_cmd_def str_eval MODEL_NAME_def ex_gui_def)
qed

subsection \<open>Output locator\<close>

text \<open>
  C5. When the expected directory (output root, model name, base name) exists, the
  locator of either front-end returns exactly that path; the walk of the output root
  has no part in the result.
\<close>

theorem locate_expected:
  "(is_dir fs (out_root @ [MODEL_NAME, b]) \<longrightarrow>
      locate_model_dir fs out_root b = Inr (out_root @ [MODEL_NAME, b]))
   \<and> (os_path_isdir fs cwd (os_path_join3 root m (path_stem audio)) \<longrightarrow>
      locate_output_dir fs cwd root m audio = Some (os_path_join3 root m (path_stem audio)))"
  by (simp add: locate_model_dir_def locate_output_dir_def Let_def)

theorem locate_expected_witness:
  "is_dir (ex_job_fs ex_raw_other) ([''results'', ''j1'', ''raw''] @ [MODEL_NAME, ''a''])
   \<and> locate_model_dir (ex_job_fs ex_raw_other) [''results'', ''j1'', ''raw''] ''a''
       = Inr [''results'', ''j1'', ''raw'', ''htdemucs_ft'', ''a'']
   \<and> os_path_isdir (ex_job_fs ex_raw_other) [''results'']
       (os_path_join3 ''j1/raw'' ''htdemucs_ft'' (path_stem ''../uploads/a.mp3''))
   \<and> locate_output_dir (ex_job_fs ex_raw_other) [''results''] ''j1/raw'' ''htdemucs_ft''
        ''../uploads/a.mp3''
       = Some ''j1/raw/htdemucs_ft/a''"
proof -
  have d: "is_dir (ex_job_fs ex_raw_other) ([''results'', ''j1'', ''raw''] @ [MODEL_NAME, ''a''])"
    by (simp add: fs_eval ex_eval ex_raw_other_def)
  have e: "os_path_join3 ''j1/raw'' ''htdemucs_ft'' (path_stem ''../uploads/a.mp3'')
           = ''j1/raw/htdemucs_ft/a''"
    by (simp add: str_eval)
  have s: "os_path_isdir (ex_job_fs ex_raw_other) [''results''] ''j1/raw/htdemucs_ft/a''"
    by (simp add: fs_eval ex_eval ex_raw_other_def)
  from locate_expected [of "ex_job_fs ex_raw_other" "[''results'', ''j1'', ''raw'']" "''a''"
      "[''results'']" "''j1/raw''" "''htdemucs_ft''" "''../uploads/a.mp3''"] d e s
  show ?thesis
    by (simp add: MODEL_NAME_def)
qed

text \<open>
  C2. With the staging tree \<^verbatim>\<open>raw/a/{vocals.mp3, no_vocals.mp3, a/}\<close> and base name \<^verbatim>\<open>a\<close>
  the expected path is absent and the walk visits \<^verbatim>\<open>raw\<close>, \<^verbatim>\<open>raw/a\<close>, \<^verbatim>\<open>raw/a/a\<close>. The
  web locator returns \<^verbatim>\<open>raw/a/a\<close>, the last directory named \<^verbatim>\<open>a\<close>, not the first: its
  \<^verbatim>\<open>break\<close> leaves the inner loop only. The desktop locator returns \<^verbatim>\<open>raw/a\<close> on the same
  tree, and the web job then fails on the empty \<^verbatim>\<open>raw/a/a\<close>.
\<close>

theorem locate_nested_last_match:
  "\<not> is_dir (ex_job_fs ex_raw_nested) ([''results'', ''j1'', ''raw''] @ [MODEL_NAME, ''a''])
   \<and> map fst (os_walk (ex_job_fs ex_raw_nested) [''results'', ''j1'', ''raw''])
       = [[''results'', ''j1'', ''raw''],
          [''results'', ''j1'', ''raw'', ''a''],
          [''results'', ''j1'', ''raw'', ''a'', ''a'']]
   \<and> locate_model_dir (ex_job_fs ex_raw_nested) [''results'', ''j1'', ''raw''] ''a''
       = Inr [''results'', ''j1'', ''raw'', ''a'', ''a'']
   \<and> locate_output_dir (ex_job_fs ex_raw_nested) [] ''/results/j1/raw'' MODEL ''/uploads/a.mp3''
       = Some ''/results/j1/raw/a''
   \<and> fst (run_demucs_debug (ex_tool 0 ex_raw_nested) [''results''] ''j1'' [''uploads'', ''a.mp3'']
            ex_fs)
       = Inl (RuntimeError ''Could not find vocals/instrumental files.'')"
proof -
  have "fst (run_demucs_debug (ex_tool 0 ex_raw_nested) [''results''] ''j1''
               [''uploads'', ''a.mp3''] ex_fs)
        = Inl (RuntimeError ''Could not find vocals/instrumental files.'')"
    by code_simp
  moreover have "locate_output_dir (ex_job_fs ex_raw_nested) [] ''/results/j1/raw'' MODEL
                   ''/uploads/a.mp3'' = Some ''/results/j1/raw/a''"
    by (simp add: locate_output_dir_def fs_eval str_eval ex_eval ex_raw_nested_def)
  moreover have "locate_model_dir (ex_job_fs ex_raw_nested) [''results'', ''j1'', ''raw''] ''a''
                 = Inr [''results'', ''j1'', ''raw'', ''a'', ''a'']"
    by (simp add: locate_model_dir_def search_walk_def search_step_def fs_eval ex_eval ex_raw_nested_def)
  ultimately show ?thesis
    by (simp add: fs_eval ex_eval ex_raw_nested_def)
qed

subsection \<open>Classification failure\<close>

lemma os_listdir_isdir:
  "os_path_isdir fs cwd d \<Longrightarrow> \<exists>listing. os_listdir fs cwd d = Inr listing"
  by (auto simp: os_path_isdir_def os_listdir_def listdir_node_def split: option.splits node.splits)

lemma worker_exit_zero_no_error:
  assumes "tool (separation_cmd root audio) dfs = (Some (0, output), dfs1)"
  shows "snd (fst (worker tool cwd root audio dfs g)) = None \<and> snd (worker tool cwd root audio dfs g) = dfs1"
proof (cases "locate_output_dir dfs1 cwd root MODEL audio")
  case None
  with assms show ?thesis
    by (simp add: worker_def Let_def)
next
  case (Some d)
  show ?thesis
  proof (cases "d \<noteq> [] \<and> os_path_isdir dfs1 cwd d")
    case True
    then obtain listing where "os_listdir dfs1 cwd d = Inr listing"
      using os_listdir_isdir by blast
    with assms Some True show ?thesis
      by (simp add: worker_def Let_def)
  next
    case False
    with assms Some show ?thesis
      by (auto simp add: worker_def Let_def)
  qed
qed

lemma os_path_join_nonempty: "a \<noteq> [] \<Longrightarrow> os_path_join a b \<noteq> []"
  by (cases b) (auto simp: os_path_join_def)

lemma worker_located:
  assumes t: "tool (separation_cmd root audio) dfs = (Some (0, output), dfs1)"
    and l: "locate_output_dir dfs1 cwd root MODEL audio = Some d"
    and d: "d \<noteq> []" "os_path_isdir dfs1 cwd d"
    and ls: "os_listdir dfs1 cwd d = Inr dlisting"
    and p: "pick_stems (os_path_join d) dlisting = (vocals, instrumental)"
  shows "worker tool cwd root audio dfs g
           = ((g\<lparr>log_text := log_text g @ output @ ''\<newline>=== Done ===\<newline>''
                    @ (case vocals of None \<Rightarrow> [] | Some v \<Rightarrow> ''Vocals:       '' @ v @ ''\<newline>'')
                    @ (case instrumental of None \<Rightarrow> []
                       | Some i \<Rightarrow> ''Instrumental: '' @ i @ ''\<newline>'')
                    @ ''Folder:       '' @ d @ ''\<newline>'' @ tip,
                  result_dir := Some d\<rparr>, None), dfs1)"
proof -
  have ne: "os_path_join d x \<noteq> []" for x
    using d(1) by (rule os_path_join_nonempty)
  from pick_stems_full [of "os_path_join d" dlisting] p
  have "\<forall>v. vocals = Some v \<longrightarrow> v \<noteq> []" "\<forall>i. instrumental = Some i \<longrightarrow> i \<noteq> []"
    using ne ne [symmetric] by auto
  with assms show ?thesis
    by (cases vocals; cases instrumental)
       (simp_all add: worker_def log_stems_def append_log_def Let_def)
qed

lemma worker_not_located:
  assumes t: "tool (separation_cmd root audio) dfs = (Some (0, output), dfs1)"
    and n: "\<not> (\<exists>d. locate_output_dir dfs1 cwd root MODEL audio = Some d \<and> d \<noteq> []
                  \<and> os_path_isdir dfs1 cwd d)"
  shows "worker tool cwd root audio dfs g
           = ((g\<lparr>log_text := log_text g @ output @ ''\<newline>Could not find output folder.\<newline>'' @ tip,
                  result_dir := locate_output_dir dfs1 cwd root MODEL audio\<rparr>, None), dfs1)"
  using assms
  by (cases "locate_output_dir dfs1 cwd root MODEL audio")
     (auto simp: worker_def append_log_def Let_def)

text \<open>
  C3, as the code has it. On the web a listing that leaves the vocals or the
  instrumental without a candidate fails the job with one error, \<^verbatim>\<open>Could not find
  vocals/instrumental files.\<close>; the listing \<^verbatim>\<open>["x_other.mp3"]\<close> has an instrumental and
  no vocals. On the desktop nothing fails after the tool has exited with code 0: the
  worker shows no error box, whatever the listing. When it has located the output
  directory, its log is the tool's output, \<^verbatim>\<open>=== Done ===\<close>, one line for each stem
  that has a candidate and none for a stem that has not, the folder and the tip, and
  \<^verbatim>\<open>result_dir\<close> is the directory; when it has not, the log is the tool's output,
  \<^verbatim>\<open>Could not find output folder.\<close> and the tip.
\<close>

theorem missing_stem_outcome:
  "(locate_model_dir fs out_root base = Inr model_dir \<longrightarrow>
    listdir fs model_dir = Inr listing \<longrightarrow>
    (fst (pick_stems (\<lambda>fn. model_dir @ [fn]) listing) = None
       \<or> snd (pick_stems (\<lambda>fn. model_dir @ [fn]) listing) = None) \<longrightarrow>
    collect fs job_dir out_root base
      = (Inl (RuntimeError ''Could not find vocals/instrumental files.''), fs,
         [''Located Demucs output folder: '' @ str_path model_dir]))
   \<and> pick_stems full [''x_other.mp3''] = (None, Some (full ''x_other.mp3''))
   \<and> (tool (separation_cmd root audio) dfs = (Some (0, output), dfs1) \<longrightarrow>
      snd (fst (worker tool cwd root audio dfs g)) = None)
   \<and> (tool (separation_cmd root audio) dfs = (Some (0, output), dfs1) \<longrightarrow>
      locate_output_dir dfs1 cwd root MODEL audio = Some d \<longrightarrow>
      d \<noteq> [] \<longrightarrow> os_path_isdir dfs1 cwd d \<longrightarrow>
      os_listdir dfs1 cwd d = Inr dlisting \<longrightarrow>
      pick_stems (os_path_join d) dlisting = (vocals, instrumental) \<longrightarrow>
      worker tool cwd root audio dfs g
        = ((g\<lparr>log_text := log_text g @ output @ ''\<newline>=== Done ===\<newline>''
                 @ (case vocals of None \<Rightarrow> [] | Some v \<Rightarrow> ''Vocals:       '' @ v @ ''\<newline>'')
                 @ (case instrumental of None \<Rightarrow> []
                    | Some i \<Rightarrow> ''Instrumental: '' @ i @ ''\<newline>'')
                 @ ''Folder:       '' @ d @ ''\<newline>'' @ tip,
               result_dir := Some d\<rparr>, None), dfs1))
   \<and> (ntool (separation_cmd nroot naudio) nfs = (Some (0, noutput), nfs1) \<longrightarrow>
      \<not> (\<exists>d. locate_output_dir nfs1 ncwd nroot MODEL naudio = Some d \<and> d \<noteq> []
               \<and> os_path_isdir nfs1 ncwd d) \<longrightarrow>
      worker ntool ncwd nroot naudio nfs ng
        = ((ng\<lparr>log_text := log_text ng @ noutput
                 @ ''\<newline>Could not find output folder.\<newline>'' @ tip,
                result_dir := locate_output_dir nfs1 ncwd nroot MODEL naudio\<rparr>, None), nfs1))"
proof (intro conjI impI)
  assume "locate_model_dir fs out_root base = Inr model_dir"
    and "listdir fs model_dir = Inr listing"
    and "fst (pick_stems (\<lambda>fn. model_dir @ [fn]) listing) = None
       \<or> snd (pick_stems (\<lambda>fn. model_dir @ [fn]) listing) = None"
  then show "collect fs job_dir out_root base
      = (Inl (RuntimeError ''Could not find vocals/instrumental files.''), fs,
         [''Located Demucs output folder: '' @ str_path model_dir])"
    by (cases "pick_stems (\<lambda>fn. model_dir @ [fn]) listing")
       (auto simp: collect_def Let_def split: option.splits)
next
  show "pick_stems full [''x_other.mp3''] = (None, Some (full ''x_other.mp3''))"
    by (simp add: pick_eval)
next
  assume "tool (separation_cmd root audio) dfs = (Some (0, output), dfs1)"
  then show "snd (fst (worker tool cwd root audio dfs g)) = None"
    by (simp add: worker_exit_zero_no_error)
next
  assume "tool (separation_cmd root audio) dfs = (Some (0, output), dfs1)"
    and "locate_output_dir dfs1 cwd root MODEL audio = Some d"
    and "d \<noteq> []" and "os_path_isdir dfs1 cwd d"
    and "os_listdir dfs1 cwd d = Inr dlisting"
    and "pick_stems (os_path_join d) dlisting = (vocals, instrumental)"
  then show "worker tool cwd root audio dfs g
        = ((g\<lparr>log_text := log_text g @ output @ ''\<newline>=== Done ===\<newline>''
                 @ (case vocals of None \<Rightarrow> [] | Some v \<Rightarrow> ''Vocals:       '' @ v @ ''\<newline>'')
                 @ (case instrumental of None \<Rightarrow> []
                    | Some i \<Rightarrow> ''Instrumental: '' @ i @ ''\<newline>'')
                 @ ''Folder:       '' @ d @ ''\<newline>'' @ tip,
               result_dir := Some d\<rparr>, None), dfs1)"
    by (rule worker_located)
next
  assume "ntool (separation_cmd nroot naudio) nfs = (Some (0, noutput), nfs1)"
    and "\<not> (\<exists>d. locate_output_dir nfs1 ncwd nroot MODEL naudio = Some d \<and> d \<noteq> []
               \<and> os_path_isdir nfs1 ncwd d)"
  then show "worker ntool ncwd nroot naudio nfs ng
        = ((ng\<lparr>log_text := log_text ng @ noutput
                 @ ''\<newline>Could not find output folder.\<newline>'' @ tip,
                result_dir := locate_output_dir nfs1 ncwd nroot MODEL naudio\<rparr>, None), nfs1)"
    by (rule worker_not_located)
qed

theorem missing_stem_outcome_witness:
  "locate_model_dir (ex_job_fs ex_raw_other) [''results'', ''j1'', ''raw''] ''a''
       = Inr [''results'', ''j1'', ''raw'', ''htdemucs_ft'', ''a'']
   \<and> listdir (ex_job_fs ex_raw_other) [''results'', ''j1'', ''raw'', ''htdemucs_ft'', ''a'']
       = Inr [''x_other.mp3'']
   \<and> fst (pick_stems (\<lambda>fn. [''results'', ''j1'', ''raw'', ''htdemucs_ft'', ''a''] @ [fn])
            [''x_other.mp3'']) = None
   \<and> collect (ex_job_fs ex_raw_other) [''results'', ''j1''] [''results'', ''j1'', ''raw''] ''a''
       = (Inl (RuntimeError ''Could not find vocals/instrumental files.''), ex_job_fs ex_raw_other,
          [''Located Demucs output folder: /results/j1/raw/htdemucs_ft/a''])
   \<and> ex_tool 0 ex_raw_other (separation_cmd ''/results/j1/raw'' ''/uploads/a.mp3'')
        (ex_job_fs (Dir []))
       = (Some (0, ''ok''), ex_job_fs ex_raw_other)
   \<and> snd (fst (worker (ex_tool 0 ex_raw_other) [] ''/results/j1/raw'' ''/uploads/a.mp3''
                 (ex_job_fs (Dir [])) ex_gui)) = None
   \<and> locate_output_dir (ex_job_fs ex_raw_other) [] ''/results/j1/raw'' MODEL ''/uploads/a.mp3''
       = Some ''/results/j1/raw/htdemucs_ft/a''
   \<and> ''/results/j1/raw/htdemucs_ft/a'' \<noteq> []
   \<and> os_path_isdir (ex_job_fs ex_raw_other) [] ''/results/j1/raw/htdemucs_ft/a''
   \<and> os_listdir (ex_job_fs ex_raw_other) [] ''/results/j1/raw/htdemucs_ft/a''
       = Inr [''x_other.mp3'']
   \<and> pick_stems (os_path_join ''/results/j1/raw/htdemucs_ft/a'') [''x_other.mp3'']
       = (None, Some ''/results/j1/raw/htdemucs_ft/a/x_other.mp3'')
   \<and> worker (ex_tool 0 ex_raw_other) [] ''/results/j1/raw'' ''/uploads/a.mp3''
        (ex_job_fs (Dir [])) ex_gui
       = ((\<lparr>log_text = ''ok\<newline>=== Done ===\<newline>Instrumental: /results/j1/raw/htdemucs_ft/a/x_other.mp3\<newline>Folder:       /results/j1/raw/htdemucs_ft/a\<newline>'' @ tip,
            result_dir = Some ''/results/j1/raw/htdemucs_ft/a''\<rparr>, None),
          ex_job_fs ex_raw_other)
   \<and> ex_tool 0 ex_raw_log (separation_cmd ''/results/j1/raw'' ''/uploads/a.mp3'')
        (ex_job_fs (Dir []))
       = (Some (0, ''ok''), ex_job_fs ex_raw_log)
   \<and> locate_output_dir (ex_job_fs ex_raw_log) [] ''/results/j1/raw'' MODEL ''/uploads/a.mp3''
       = None
   \<and> worker (ex_tool 0 ex_raw_log) [] ''/results/j1/raw'' ''/uploads/a.mp3''
        (ex_job_fs (Dir [])) ex_gui
       = ((\<lparr>log_text = ''ok\<newline>Could not find output folder.\<newline>'' @ tip, result_dir = None\<rparr>, None),
          ex_job_fs ex_raw_log)"
proof -
  have l: "locate_model_dir (ex_job_fs ex_raw_other) [''results'', ''j1'', ''raw''] ''a''
       = Inr [''results'', ''j1'', ''raw'', ''htdemucs_ft'', ''a'']"
    by (simp add: locate_model_dir_def fs_eval ex_eval ex_raw_other_def)
  have d: "listdir (ex_job_fs ex_raw_other) [''results'', ''j1'', ''raw'', ''htdemucs_ft'', ''a'']
       = Inr [''x_other.mp3'']"
    by (simp add: fs_eval ex_eval ex_raw_other_def)
  have p: "fst (pick_stems (\<lambda>fn. [''results'', ''j1'', ''raw'', ''htdemucs_ft'', ''a''] @ [fn])
            [''x_other.mp3'']) = None
           \<or> snd (pick_stems (\<lambda>fn. [''results'', ''j1'', ''raw'', ''htdemucs_ft'', ''a''] @ [fn])
            [''x_other.mp3'']) = None"
    by (simp add: pick_eval)
  have p1: "fst (pick_stems (\<lambda>fn. [''results'', ''j1'', ''raw'', ''htdemucs_ft'', ''a''] @ [fn])
            [''x_other.mp3'']) = None"
    by (simp add: pick_eval)
  have t: "ex_tool 0 ex_raw_other (separation_cmd ''/results/j1/raw'' ''/uploads/a.mp3'')
             (ex_job_fs (Dir []))
           = (Some (0, ''ok''), ex_job_fs ex_raw_other)"
    by (simp add: ex_eval ex_raw_other_def)
  have dl: "locate_output_dir (ex_job_fs ex_raw_other) [] ''/results/j1/raw'' MODEL ''/uploads/a.mp3''
       = Some ''/results/j1/raw/htdemucs_ft/a''"
    by (simp add: locate_output_dir_def fs_eval str_eval ex_eval ex_raw_other_def)
  have dne: "''/results/j1/raw/htdemucs_ft/a'' \<noteq> []"
    by simp
  have dd: "os_path_isdir (ex_job_fs ex_raw_other) [] ''/results/j1/raw/htdemucs_ft/a''"
    by (simp add: fs_eval ex_eval ex_raw_other_def)
  have dls: "os_listdir (ex_job_fs ex_raw_other) [] ''/results/j1/raw/htdemucs_ft/a''
       = Inr [''x_other.mp3'']"
    by (simp add: fs_eval ex_eval ex_raw_other_def)
  have dp: "pick_stems (os_path_join ''/results/j1/raw/htdemucs_ft/a'') [''x_other.mp3'']
       = (None, Some ''/results/j1/raw/htdemucs_ft/a/x_other.mp3'')"
    by (simp add: pick_eval str_eval)
  have nt: "ex_tool 0 ex_raw_log (separation_cmd ''/results/j1/raw'' ''/uploads/a.mp3'')
             (ex_job_fs (Dir []))
           = (Some (0, ''ok''), ex_job_fs ex_raw_log)"
    by (simp add: ex_eval ex_raw_log_def)
  have nl: "locate_output_dir (ex_job_fs ex_raw_log) [] ''/results/j1/raw'' MODEL ''/uploads/a.mp3''
       = None"
    by (simp add: locate_output_dir_def fs_eval str_eval ex_eval ex_raw_log_def)
  then have nn: "\<not> (\<exists>d. locate_output_dir (ex_job_fs ex_raw_log) [] ''/results/j1/raw'' MODEL
                        ''/uploads/a.mp3'' = Some d \<and> d \<noteq> []
                     \<and> os_path_isdir (ex_job_fs ex_raw_log) [] d)"
    by simp
  note c = missing_stem_outcome
    [where fs = "ex_job_fs ex_raw_other" and out_root = "[''results'', ''j1'', ''raw'']"
       and base = "''a''" and model_dir = "[''results'', ''j1'', ''raw'', ''htdemucs_ft'', ''a'']"
       and listing = "[''x_other.mp3'']" and job_dir = "[''results'', ''j1'']" and full = id
       and tool = "ex_tool 0 ex_raw_other" and root = "''/results/j1/raw''"
       and audio = "''/uploads/a.mp3''" and dfs = "ex_job_fs (Dir [])" and ?output = "''ok''"
       and ?dfs1.0 = "ex_job_fs ex_raw_other" and cwd = "[]" and g = ex_gui
       and d = "''/results/j1/raw/htdemucs_ft/a''" and dlisting = "[''x_other.mp3'']"
       and vocals = None and instrumental = "Some ''/results/j1/raw/htdemucs_ft/a/x_other.mp3''"
       and ntool = "ex_tool 0 ex_raw_log" and nroot = "''/results/j1/raw''"
       and naudio = "''/uploads/a.mp3''" and nfs = "ex_job_fs (Dir [])" and noutput = "''ok''"
       and ?nfs1.0 = "ex_job_fs ex_raw_log" and ncwd = "[]" and ng = ex_gui]
  have w1: "collect (ex_job_fs ex_raw_other) [''results'', ''j1''] [''results'', ''j1'', ''raw''] ''a''
       = (Inl (RuntimeError ''Could not find vocals/instrumental files.''), ex_job_fs ex_raw_other,
          [''Located Demucs output folder: /results/j1/raw/htdemucs_ft/a''])"
    using c [THEN conjunct1, THEN mp, THEN mp, THEN mp, OF l d p] by (simp add: str_eval)
  have w2: "snd (fst (worker (ex_tool 0 ex_raw_other) [] ''/results/j1/raw'' ''/uploads/a.mp3''
                 (ex_job_fs (Dir [])) ex_gui)) = None"
    using c [THEN conjunct2, THEN conjunct2, THEN conjunct1, THEN mp, OF t] .
  have w3: "worker (ex_tool 0 ex_raw_other) [] ''/results/j1/raw'' ''/uploads/a.mp3''
        (ex_job_fs (Dir [])) ex_gui
       = ((\<lparr>log_text = ''ok\<newline>=== Done ===\<newline>Instrumental: /results/j1/raw/htdemucs_ft/a/x_other.mp3\<newline>Folder:       /results/j1/raw/htdemucs_ft/a\<newline>'' @ tip,
            result_dir = Some ''/results/j1/raw/htdemucs_ft/a''\<rparr>, None),
          ex_job_fs ex_raw_other)"
    using c [THEN conjunct2, THEN conjunct2, THEN conjunct2, THEN conjunct1,
        THEN mp, THEN mp, THEN mp, THEN mp, THEN mp, THEN mp, OF t dl dne dd dls dp]
    by (simp add: ex_gui_def)
  have w4: "worker (ex_tool 0 ex_raw_log) [] ''/results/j1/raw'' ''/uploads/a.mp3''
        (ex_job_fs (Dir [])) ex_gui
       = ((\<lparr>log_text = ''ok\<newline>Could not find output folder.\<newline>'' @ tip, result_dir = None\<rparr>, None),
          ex_job_fs ex_raw_log)"
    using c [THEN conjunct2, THEN conjunct2, THEN conjunct2, THEN conjunct2,
        THEN mp, THEN mp, OF nt nn] nl
    by (simp add: ex_gui_def)
  from l d p1 w1 t w2 dl dne dd dls dp w3 nt nl w4 show ?thesis
    by blast
qed

text \<open>
  The desktop job on the listing \<^verbatim>\<open>["x_other.mp3"]\<close>: no vocals candidate, and the worker
  logs \<^verbatim>\<open>=== Done ===\<close>, the instrumental and the folder, with no error.
\<close>

theorem desktop_missing_vocals_counterexample:
  "os_listdir (ex_job_fs ex_raw_other) [] ''/results/j1/raw/htdemucs_ft/a'' = Inr [''x_other.mp3'']
   \<and> fst (pick_stems (os_path_join ''/results/j1/raw/htdemucs_ft/a'') [''x_other.mp3'']) = None
   \<and> worker (ex_tool 0 ex_raw_other) [] ''/results/j1/raw'' ''/uploads/a.mp3''
        (ex_job_fs (Dir [])) ex_gui
      = ((\<lparr>log_text = ''ok\<newline>=== Done ===\<newline>Instrumental: /results/j1/raw/htdemucs_ft/a/x_other.mp3\<newline>Folder:       /results/j1/raw/htdemucs_ft/a\<newline>'' @ tip,
           result_dir = Some ''/results/j1/raw/htdemucs_ft/a''\<rparr>, None),
         ex_job_fs ex_raw_other)"
  by (simp add: worker_def locate_output_dir_def fs_eval str_eval ex_eval ex_raw_other_def separation_cmd_def
      FLAGS_def append_log_def log_stems_def pick_eval Let_def)

text \<open>
  C10. When the web classification leaves a stem without a candidate, the job fails
  and the file system is the one the tool left: no file was copied into the job
  folder.
\<close>

theorem classification_failure_publishes_nothing:
  assumes "mkdir fs (RESULTS_DIR @ [job_id]) = Inr fs1"
    and "mkdir fs1 (RESULTS_DIR @ [job_id, ''raw'']) = Inr fs2"
    and "tool (demucs_cmd (RESULTS_DIR @ [job_id, ''raw'']) input_path) fs2 = (Some (0, output), fs3)"
    and "locate_model_dir fs3 (RESULTS_DIR @ [job_id, ''raw'']) (stem input_path) = Inr model_dir"
    and "listdir fs3 model_dir = Inr listing"
    and "fst (pick_stems (\<lambda>fn. model_dir @ [fn]) listing) = None
         \<or> snd (pick_stems (\<lambda>fn. model_dir @ [fn]) listing) = None"
  shows "fst (run_demucs_debug tool RESULTS_DIR job_id input_path fs)
           = Inl (RuntimeError ''Could not find vocals/instrumental files.'')
         \<and> fst (snd (run_demucs_debug tool RESULTS_DIR job_id input_path fs)) = fs3"
  using assms
  by (cases "pick_stems (\<lambda>fn. model_dir @ [fn]) listing")
     (auto simp: run_demucs_debug_def collect_def Let_def split: option.splits)

theorem classification_failure_publishes_nothing_witness:
  "mkdir ex_fs ([''results''] @ [''j1''])
       = Inr (Dir [(''results'', Dir [(''j1'', Dir [])]),
                   (''uploads'', Dir [(''a.mp3'', File ''RIFF'')])])
   \<and> mkdir (Dir [(''results'', Dir [(''j1'', Dir [])]),
                 (''uploads'', Dir [(''a.mp3'', File ''RIFF'')])]) ([''results''] @ [''j1'', ''raw''])
       = Inr (ex_job_fs (Dir []))
   \<and> ex_tool 0 ex_raw_other (demucs_cmd ([''results''] @ [''j1'', ''raw'']) [''uploads'', ''a.mp3''])
        (ex_job_fs (Dir []))
       = (Some (0, ''ok''), ex_job_fs ex_raw_other)
   \<and> locate_model_dir (ex_job_fs ex_raw_other) ([''results''] @ [''j1'', ''raw''])
        (stem [''uploads'', ''a.mp3''])
       = Inr [''results'', ''j1'', ''raw'', ''htdemucs_ft'', ''a'']
   \<and> listdir (ex_job_fs ex_raw_other) [''results'', ''j1'', ''raw'', ''htdemucs_ft'', ''a'']
       = Inr [''x_other.mp3'']
   \<and> (fst (pick_stems (\<lambda>fn. [''results'', ''j1'', ''raw'', ''htdemucs_ft'', ''a''] @ [fn])
             [''x_other.mp3'']) = None
      \<or> snd (pick_stems (\<lambda>fn. [''results'', ''j1'', ''raw'', ''htdemucs_ft'', ''a''] @ [fn])
             [''x_other.mp3'']) = None)
   \<and> fst (run_demucs_debug (ex_tool 0 ex_raw_other) [''results''] ''j1'' [''uploads'', ''a.mp3'']
            ex_fs)
       = Inl (RuntimeError ''Could not find vocals/instrumental files.'')
   \<and> fst (snd (run_demucs_debug (ex_tool 0 ex_raw_other) [''results''] ''j1''
                 [''uploads'', ''a.mp3''] ex_fs))
       = ex_job_fs ex_raw_other"
proof -
  have m1: "mkdir ex_fs ([''results''] @ [''j1''])
       = Inr (Dir [(''results'', Dir [(''j1'', Dir [])]),
                   (''uploads'', Dir [(''a.mp3'', File ''RIFF'')])])"
    by (simp add: fs_eval ex_eval ex_raw_other_def)
  have m2: "mkdir (Dir [(''results'', Dir [(''j1'', Dir [])]),
                 (''uploads'', Dir [(''a.mp3'', File ''RIFF'')])]) ([''results''] @ [''j1'', ''raw''])
       = Inr (ex_job_fs (Dir []))"
    by (simp add: fs_eval ex_eval ex_raw_other_def)
  have t: "ex_tool 0 ex_raw_other
             (demucs_cmd ([''results''] @ [''j1'', ''raw'']) [''uploads'', ''a.mp3''])
             (ex_job_fs (Dir []))
           = (Some (0, ''ok''), ex_job_fs ex_raw_other)"
    by (simp add: ex_eval ex_raw_other_def)
  have l: "locate_model_dir (ex_job_fs ex_raw_other) ([''results''] @ [''j1'', ''raw''])
             (stem [''uploads'', ''a.mp3''])
           = Inr [''results'', ''j1'', ''raw'', ''htdemucs_ft'', ''a'']"
    by (simp add: locate_model_dir_def fs_eval str_eval ex_eval ex_raw_other_def)
  have d: "listdir (ex_job_fs ex_raw_other) [''results'', ''j1'', ''raw'', ''htdemucs_ft'', ''a'']
       = Inr [''x_other.mp3'']"
    by (simp add: fs_eval ex_eval ex_raw_other_def)
  have p: "fst (pick_stems (\<lambda>fn. [''results'', ''j1'', ''raw'', ''htdemucs_ft'', ''a''] @ [fn])
             [''x_other.mp3'']) = None
      \<or> snd (pick_stems (\<lambda>fn. [''results'', ''j1'', ''raw'', ''htdemucs_ft'', ''a''] @ [fn])
             [''x_other.mp3'']) = None"
    by (simp add: pick_eval)
  from classification_failure_publishes_nothing
      [where tool = "ex_tool 0 ex_raw_other" and RESULTS_DIR = "[''results'']" and job_id = "''j1''"
         and fs = ex_fs and input_path = "[''uploads'', ''a.mp3'']", OF m1 m2 t l d p]
    m1 m2 t l d p
  show ?thesis
    by blast
qed

subsection \<open>The fallback walk\<close>

lemma find_eq: "find (\<lambda>d. d = b) ds = (if b \<in> set ds then Some b else None)"
  by (induction ds) auto

lemma search_step_eq:
  "search_step b found (r, ds, fs) = (if b \<in> set ds then Some (r @ [b]) else found)"
  by (simp add: search_step_def find_eq)

lemma search_fold_none:
  "\<forall>w \<in> set ws. b \<notin> set (fst (snd w)) \<Longrightarrow> foldl (search_step b) acc ws = acc"
  by (induction ws arbitrary: acc) (auto simp: search_step_eq)

lemma search_fold_some:
  "\<exists>w \<in> set ws. b \<in> set (fst (snd w)) \<Longrightarrow> \<exists>r. foldl (search_step b) acc ws = Some (r @ [b])"
proof (induction ws arbitrary: acc rule: rev_induct)
  case Nil
  then show ?case by simp
next
  case (snoc w ws)
  obtain r ds fs where w: "w = (r, ds, fs)"
    by (cases w)
  show ?case
  proof (cases "b \<in> set ds")
    case True
    then show ?thesis
      by (simp add: w search_step_eq)
  next
    case False
    with snoc.prems w have "\<exists>w \<in> set ws. b \<in> set (fst (snd w))"
      by auto
    from snoc.IH [OF this, of acc] False show ?thesis
      by (simp add: w search_step_eq)
  qed
qed

text \<open>The web search returns the last directory of the walk that lists \<open>b\<close>.\<close>

lemma search_walk_last_match:
  "search_walk fs out_root b
     = (let hits = filter (\<lambda>w. b \<in> set (fst (snd w))) (os_walk fs out_root)
        in if hits = [] then None else Some (fst (last hits) @ [b]))"
proof -
  have "foldl (search_step b) None ws
          = (let hits = filter (\<lambda>w. b \<in> set (fst (snd w))) ws
             in if hits = [] then None else Some (fst (last hits) @ [b]))" for ws
  proof (induction ws rule: rev_induct)
    case Nil
    then show ?case by simp
  next
    case (snoc w ws)
    obtain r ds fs where "w = (r, ds, fs)"
      by (cases w)
    with snoc show ?case
      by (simp add: search_step_eq Let_def)
  qed
  then show ?thesis
    by (simp add: search_walk_def)
qed

lemma walk_sub_mono:
  "e \<in> set es \<Longrightarrow> set (walk join (join r (fst e)) (snd e)) \<subseteq> set (walk_sub join r es)"
  by (induction es) auto

lemma child_in_dirs:
  "map_of es k = Some (Dir es') \<Longrightarrow> k \<in> set (map fst (filter (\<lambda>e. is_dir_node (snd e)) es))"
  by (induction es) (auto split: if_splits)

lemma walk_sees_dir:
  "lookup n p = Some (Dir es) \<Longrightarrow> p \<noteq> [] \<Longrightarrow>
     \<exists>w \<in> set (walk join r n). last p \<in> set (fst (snd w))"
proof (induction p arbitrary: n r)
  case Nil
  then show ?case by simp
next
  case (Cons k ks)
  then obtain es0 where n: "n = Dir es0"
    by (cases n) auto
  with Cons.prems obtain ch where ch: "map_of es0 k = Some ch" "lookup ch ks = Some (Dir es)"
    by (auto split: option.splits)
  show ?case
  proof (cases "ks = []")
    case True
    with ch have "map_of es0 k = Some (Dir es)"
      by simp
    then have "k \<in> set (map fst (filter (\<lambda>e. is_dir_node (snd e)) es0))"
      by (rule child_in_dirs)
    with True n show ?thesis
      by simp
  next
    case False
    from Cons.IH [OF ch(2) False, of "join r k"]
    obtain w where w: "w \<in> set (walk join (join r k) ch)" "last ks \<in> set (fst (snd w))"
      by blast
    from ch(1) have "(k, ch) \<in> set es0"
      by (rule map_of_SomeD)
    from walk_sub_mono [OF this, of join r] w(1) have "w \<in> set (walk_sub join r es0)"
      by auto
    with w(2) False n show ?thesis
      by auto
  qed
qed

lemma dirs_in_dir_names_sub:
  "set (map fst (filter (\<lambda>e. is_dir_node (snd e)) es)) \<subseteq> set (dir_names_sub es)"
  by (induction es) auto

lemma walk_dirs_names:
  "\<forall>w \<in> set (walk join r n). set (fst (snd w)) \<subseteq> set (dir_names n)"
  "\<forall>w \<in> set (walk_sub join r es). set (fst (snd w)) \<subseteq> set (dir_names_sub es)"
proof (induction join r n and join r es rule: walk_walk_sub.induct)
  case (1 join r c)
  then show ?case by simp
next
  case (2 join r es)
  then show ?case
    using dirs_in_dir_names_sub [of es] by auto
next
  case (3 join r)
  then show ?case by simp
next
  case (4 join r e es)
  then show ?case
    by (cases "snd e") auto
qed

lemma str_split_no_sep: "\<forall>x \<in> set (str_split c s). c \<notin> set x"
  by (induction s) (auto split: list.splits)

lemma name_stem_subset: "set (name_stem nm) \<subseteq> set nm"
  by (auto simp: name_stem_def split: option.splits dest: in_set_takeD)

lemma path_stem_no_slash: "CHR ''/'' \<notin> set (path_stem s)"
proof -
  have "\<forall>x \<in> set (path_parts s). CHR ''/'' \<notin> set x"
    using str_split_no_sep [of "CHR ''/''" s] by (simp add: path_parts_def)
  then have "CHR ''/'' \<notin> set (name_of (path_parts s))"
    by (simp add: name_of_def)
  with name_stem_subset [of "name_of (path_parts s)"] show ?thesis
    by (auto simp: path_stem_def)
qed

lemma rfind_none: "c \<notin> set s \<Longrightarrow> rfind s c = None"
  by (simp add: rfind_def)

lemma takeWhile_upto: "c \<notin> set xs \<Longrightarrow> takeWhile (\<lambda>x. x \<noteq> c) (xs @ c # ys) = xs"
  by (induction xs) auto

lemma rfind_last_sep: "c \<notin> set k \<Longrightarrow> rfind (a @ c # k) c = Some (length a)"
proof -
  assume k: "c \<notin> set k"
  then have "takeWhile (\<lambda>x. x \<noteq> c) (rev k @ c # rev a) = rev k"
    by (simp add: takeWhile_upto)
  then show ?thesis
    by (simp add: rfind_def)
qed

lemma basename_plain: "CHR ''/'' \<notin> set k \<Longrightarrow> basename k = k"
  by (simp add: basename_def rfind_none)

lemma basename_after_sep: "CHR ''/'' \<notin> set k \<Longrightarrow> basename (a @ CHR ''/'' # k) = k"
  by (simp add: basename_def rfind_last_sep)

lemma startswith_slash: "startswith k ''/'' \<Longrightarrow> CHR ''/'' \<in> set k"
  by (cases k) auto

lemma endswith_slash: "endswith a ''/'' \<Longrightarrow> \<exists>a'. a = a' @ ''/''"
proof -
  assume "endswith a ''/''"
  then obtain x where "rev a = CHR ''/'' # x"
    by (cases "rev a") (auto simp: endswith_def)
  then have "a = rev x @ ''/''"
    by (simp add: rev_swap)
  then show ?thesis ..
qed

lemma basename_join: "CHR ''/'' \<notin> set k \<Longrightarrow> basename (os_path_join a k) = k"
proof -
  assume k: "CHR ''/'' \<notin> set k"
  then have ns: "\<not> startswith k ''/''"
    using startswith_slash by blast
  show ?thesis
  proof (cases "a = []")
    case True
    with k ns show ?thesis
      by (simp add: os_path_join_def basename_plain)
  next
    case False
    show ?thesis
    proof (cases "endswith a ''/''")
      case True
      then obtain a' where "a = a' @ ''/''"
        using endswith_slash by blast
      with k ns True show ?thesis
        by (simp add: os_path_join_def basename_after_sep)
    next
      case e: False
      with k ns False show ?thesis
        by (simp add: os_path_join_def basename_after_sep)
    qed
  qed
qed

lemma walk_visits:
  "lookup n p = Some (Dir es) \<Longrightarrow> foldl join r p \<in> fst ` set (walk join r n)"
proof (induction p arbitrary: n r)
  case Nil
  then show ?case by simp
next
  case (Cons k ks)
  then obtain es0 where n: "n = Dir es0"
    by (cases n) auto
  with Cons.prems obtain ch where ch: "map_of es0 k = Some ch" "lookup ch ks = Some (Dir es)"
    by (auto split: option.splits)
  from Cons.IH [OF ch(2), of "join r k"]
  have "foldl join (join r k) ks \<in> fst ` set (walk join (join r k) ch)" .
  moreover from ch(1) have "(k, ch) \<in> set es0"
    by (rule map_of_SomeD)
  from walk_sub_mono [OF this, of join r]
  have "set (walk join (join r k) ch) \<subseteq> set (walk_sub join r es0)"
    by simp
  ultimately show ?case
    using n by auto
qed

lemma walk_roots:
  "\<forall>w \<in> set (walk join r n). fst w = r \<or> (\<exists>r' nm. fst w = join r' nm \<and> nm \<in> set (dir_names n))"
  "\<forall>w \<in> set (walk_sub join r es). \<exists>r' nm. fst w = join r' nm \<and> nm \<in> set (dir_names_sub es)"
proof (induction join r n and join r es rule: walk_walk_sub.induct)
  case (1 join r c)
  then show ?case by simp
next
  case (2 join r es)
  then show ?case by simp
next
  case (3 join r)
  then show ?case by simp
next
  case (4 join r e es)
  show ?case
  proof (cases "snd e")
    case (File c)
    with 4 show ?thesis
      by auto
  next
    case (Dir es')
    with 4 show ?thesis
      by (simp add: ball_Un) blast
  qed
qed

text \<open>
  The names collected by \<open>dir_names\<close> are those of the directories that a path of
  entry names reaches: every reachable directory is collected, and in a tree without
  duplicate names every collected name is reachable.
\<close>

lemma lookup_dir_names:
  "lookup n p = Some (Dir es) \<Longrightarrow> p \<noteq> [] \<Longrightarrow> last p \<in> set (dir_names n)"
  using walk_sees_dir [of n p es "\<lambda>r nm. r" "()"] walk_dirs_names(1) [of "\<lambda>r nm. r" "()" n]
  by auto

lemma dir_names_reachable:
  "distinct_names n \<Longrightarrow> \<forall>nm \<in> set (dir_names n). \<exists>p es. p \<noteq> [] \<and> last p = nm \<and> lookup n p = Some (Dir es)"
  "distinct (map fst es) \<Longrightarrow> distinct_names_sub es \<Longrightarrow>
     \<forall>nm \<in> set (dir_names_sub es). \<exists>p es'. p \<noteq> [] \<and> last p = nm \<and> lookup (Dir es) p = Some (Dir es')"
proof (induction n and es rule: dir_names_dir_names_sub.induct)
  case (1 c)
  then show ?case by simp
next
  case (2 es)
  then show ?case by simp
next
  case 3
  then show ?case by simp
next
  case (4 e es)
  obtain k ch where e: "e = (k, ch)"
    by (cases e)
  from 4 e have dk: "k \<notin> fst ` set es" and de: "distinct (map fst es)" and dn: "distinct_names ch"
    "distinct_names_sub es"
    by auto
  show ?case
  proof
    fix nm
    assume "nm \<in> set (dir_names_sub (e # es))"
    then consider "is_dir_node ch" "nm = k" | "is_dir_node ch" "nm \<in> set (dir_names ch)"
      | "nm \<in> set (dir_names_sub es)"
      by (auto simp: e split: if_splits)
    then show "\<exists>p es'. p \<noteq> [] \<and> last p = nm \<and> lookup (Dir (e # es)) p = Some (Dir es')"
    proof cases
      case 1
      then obtain es' where "ch = Dir es'"
        by (cases ch) auto
      with 1 e have "lookup (Dir (e # es)) [k] = Some (Dir es')"
        by simp
      with 1 show ?thesis
        by (intro exI [of _ "[k]"]) auto
    next
      case 2
      with "4.IH"(1) dn e obtain p es' where p: "p \<noteq> []" "last p = nm" "lookup ch p = Some (Dir es')"
        by auto
      then have "lookup (Dir (e # es)) (k # p) = Some (Dir es')"
        by (simp add: e)
      with p show ?thesis
        by (intro exI [of _ "k # p"]) auto
    next
      case 3
      with "4.IH"(2) de dn obtain p es' where p: "p \<noteq> []" "last p = nm"
        "lookup (Dir es) p = Some (Dir es')"
        by blast
      then obtain c cs where pc: "p = c # cs"
        by (cases p) auto
      with p(3) have "map_of es c \<noteq> None"
        by (auto split: option.splits)
      then have "c \<in> fst ` set es"
        by (simp add: map_of_eq_None_iff)
      with dk have "c \<noteq> k"
        by auto
      with p(3) pc have "lookup (Dir (e # es)) p = Some (Dir es')"
        by (simp add: e)
      with p show ?thesis
        by blast
    qed
  qed
qed

subsection \<open>Locating through the walk\<close>

text \<open>
  C6. When the expected directory is absent and some directory named \<open>b\<close> lies below
  the output root (at a non-empty path \<open>p\<close> of entry names ending in \<open>b\<close>), the locator of
  either front-end returns a path whose last component is \<open>b\<close>.
\<close>

theorem locate_fallback_named_dir:
  "(node_at fs out_root = Some n \<longrightarrow> lookup n p = Some (Dir es) \<longrightarrow> p \<noteq> [] \<longrightarrow> last p = b \<longrightarrow>
      \<not> is_dir fs (out_root @ [MODEL_NAME, b]) \<longrightarrow>
      (\<exists>q. locate_model_dir fs out_root b = Inr q \<and> name_of q = b))
   \<and> (os_stat fs cwd root = Some dn \<longrightarrow> lookup dn dp = Some (Dir des) \<longrightarrow> dp \<noteq> [] \<longrightarrow>
      last dp = path_stem audio \<longrightarrow>
      \<not> os_path_isdir fs cwd (os_path_join3 root m (path_stem audio)) \<longrightarrow>
      (\<exists>r. locate_output_dir fs cwd root m audio = Some r \<and> basename r = path_stem audio))"
proof (intro conjI impI)
  assume n: "node_at fs out_root = Some n" and p: "lookup n p = Some (Dir es)" "p \<noteq> []" "last p = b"
    and e: "\<not> is_dir fs (out_root @ [MODEL_NAME, b])"
  from walk_sees_dir [OF p(1) p(2)] p(3) n
  have "\<exists>w \<in> set (os_walk fs out_root). b \<in> set (fst (snd w))"
    by (simp add: os_walk_def)
  from search_fold_some [OF this]
  obtain r where "search_walk fs out_root b = Some (r @ [b])"
    unfolding search_walk_def by blast
  with e show "\<exists>q. locate_model_dir fs out_root b = Inr q \<and> name_of q = b"
    by (simp add: locate_model_dir_def name_of_def)
next
  let ?b = "path_stem audio"
  assume n: "os_stat fs cwd root = Some dn" and p: "lookup dn dp = Some (Dir des)" "dp \<noteq> []"
    "last dp = ?b"
    and e: "\<not> os_path_isdir fs cwd (os_path_join3 root m ?b)"
  from p(2) obtain ks k where dp: "dp = ks @ [k]"
    by (cases dp rule: rev_cases) auto
  with p(3) have k: "k = ?b"
    by simp
  from walk_visits [OF p(1), of os_path_join root] n
  have v: "foldl os_path_join root dp \<in> set (map fst (os_walk_str fs cwd root))"
    by (simp add: os_walk_str_def)
  have "basename (foldl os_path_join root dp) = ?b"
    by (simp add: dp k basename_join path_stem_no_slash)
  with v have "\<exists>x \<in> set (map fst (os_walk_str fs cwd root)). basename x = ?b"
    by blast
  then obtain r where "find (\<lambda>r. basename r = ?b) (map fst (os_walk_str fs cwd root)) = Some r"
    by (cases "find (\<lambda>r. basename r = ?b) (map fst (os_walk_str fs cwd root))")
       (auto simp: find_None_iff)
  moreover from this have "basename r = ?b"
    by (auto simp: find_Some_iff)
  ultimately show "\<exists>r. locate_output_dir fs cwd root m audio = Some r \<and> basename r = ?b"
    using e by (simp add: locate_output_dir_def Let_def)
qed

theorem locate_fallback_named_dir_witness:
  "node_at (ex_job_fs ex_raw_v4) [''results'', ''j1'', ''raw''] = Some ex_raw_v4
   \<and> lookup ex_raw_v4 [''v4'', ''a'']
       = Some (Dir [(''vocals.mp3'', File ''V''), (''no_vocals.mp3'', File ''I'')])
   \<and> [''v4'', ''a''] \<noteq> [] \<and> last [''v4'', ''a''] = ''a''
   \<and> \<not> is_dir (ex_job_fs ex_raw_v4) ([''results'', ''j1'', ''raw''] @ [MODEL_NAME, ''a''])
   \<and> (\<exists>q. locate_model_dir (ex_job_fs ex_raw_v4) [''results'', ''j1'', ''raw''] ''a'' = Inr q
           \<and> name_of q = ''a'')
   \<and> os_stat (ex_job_fs ex_raw_v4) [] ''/results/j1/raw'' = Some ex_raw_v4
   \<and> last [''v4'', ''a''] = path_stem ''/uploads/a.mp3''
   \<and> \<not> os_path_isdir (ex_job_fs ex_raw_v4) []
         (os_path_join3 ''/results/j1/raw'' ''htdemucs_ft'' (path_stem ''/uploads/a.mp3''))
   \<and> (\<exists>r. locate_output_dir (ex_job_fs ex_raw_v4) [] ''/results/j1/raw'' ''htdemucs_ft''
               ''/uploads/a.mp3'' = Some r
           \<and> basename r = path_stem ''/uploads/a.mp3'')"
proof -
  have n: "node_at (ex_job_fs ex_raw_v4) [''results'', ''j1'', ''raw''] = Some ex_raw_v4"
    by (simp add: fs_eval ex_eval ex_raw_v4_def)
  have p: "lookup ex_raw_v4 [''v4'', ''a'']
       = Some (Dir [(''vocals.mp3'', File ''V''), (''no_vocals.mp3'', File ''I'')])"
    by (simp add: ex_raw_v4_def)
  have ne: "[''v4'', ''a''] \<noteq> []" and l: "last [''v4'', ''a''] = ''a''"
    by simp_all
  have e: "\<not> is_dir (ex_job_fs ex_raw_v4) ([''results'', ''j1'', ''raw''] @ [MODEL_NAME, ''a''])"
    by (simp add: fs_eval ex_eval ex_raw_v4_def)
  have dn: "os_stat (ex_job_fs ex_raw_v4) [] ''/results/j1/raw'' = Some ex_raw_v4"
    by (simp add: fs_eval ex_eval ex_raw_v4_def)
  have dl: "last [''v4'', ''a''] = path_stem ''/uploads/a.mp3''"
    by (simp add: str_eval)
  have de: "\<not> os_path_isdir (ex_job_fs ex_raw_v4) []
         (os_path_join3 ''/results/j1/raw'' ''htdemucs_ft'' (path_stem ''/uploads/a.mp3''))"
    by (simp add: fs_eval str_eval ex_eval ex_raw_v4_def)
  note c = locate_fallback_named_dir [of "ex_job_fs ex_raw_v4" "[''results'', ''j1'', ''raw'']"
      ex_raw_v4 "[''v4'', ''a'']" _ "''a''" "[]" "''/results/j1/raw''" ex_raw_v4
      "[''v4'', ''a'']" _ "''/uploads/a.mp3''" "''htdemucs_ft''"]
  from c [THEN conjunct1, rule_format, OF n p ne l e]
       c [THEN conjunct2, rule_format, OF dn p ne dl de] n p ne l e dn dl de
  show ?thesis
    by blast
qed

text \<open>
  C7, as the code has it. When the expected directory is absent and no directory below
  the output root is named \<open>b\<close>, the web locator raises the locate error and the job
  fails with it. The desktop locator returns \<open>None\<close> if, moreover, the output root's own
  base name is not \<open>b\<close>: its walk tests the root as well. (Directory names hold no
  \<^verbatim>\<open>/\<close>, as in every file system.)
\<close>

theorem locate_not_found:
  "((\<forall>n. node_at fs out_root = Some n \<longrightarrow> b \<notin> set (dir_names n)) \<longrightarrow>
      \<not> is_dir fs (out_root @ [MODEL_NAME, b]) \<longrightarrow>
      locate_model_dir fs out_root b = Inl (RuntimeError ''Could not locate Demucs output folder.'')
      \<and> collect fs job_dir out_root b
          = (Inl (RuntimeError ''Could not locate Demucs output folder.''), fs, []))
   \<and> ((\<forall>dn. os_stat fs cwd root = Some dn \<longrightarrow>
            path_stem audio \<notin> set (dir_names dn)
            \<and> (\<forall>nm \<in> set (dir_names dn). CHR ''/'' \<notin> set nm)) \<longrightarrow>
      basename root \<noteq> path_stem audio \<longrightarrow>
      \<not> os_path_isdir fs cwd (os_path_join3 root m (path_stem audio)) \<longrightarrow>
      locate_output_dir fs cwd root m audio = None)"
proof (intro conjI impI)
  assume a: "\<forall>n. node_at fs out_root = Some n \<longrightarrow> b \<notin> set (dir_names n)"
    and e: "\<not> is_dir fs (out_root @ [MODEL_NAME, b])"
  have "\<forall>w \<in> set (os_walk fs out_root). b \<notin> set (fst (snd w))"
  proof (cases "node_at fs out_root")
    case None
    then show ?thesis
      by (simp add: os_walk_def)
  next
    case (Some n)
    with a have "b \<notin> set (dir_names n)"
      by simp
    with walk_dirs_names(1) [of "\<lambda>p nm. p @ [nm]" out_root n] Some show ?thesis
      by (auto simp: os_walk_def)
  qed
  then have "search_walk fs out_root b = None"
    by (simp add: search_walk_def search_fold_none)
  with e show l: "locate_model_dir fs out_root b
                = Inl (RuntimeError ''Could not locate Demucs output folder.'')"
    by (simp add: locate_model_dir_def)
  then show "collect fs job_dir out_root b
          = (Inl (RuntimeError ''Could not locate Demucs output folder.''), fs, [])"
    by (simp add: collect_def)
next
  let ?b = "path_stem audio"
  assume a: "\<forall>dn. os_stat fs cwd root = Some dn \<longrightarrow>
            ?b \<notin> set (dir_names dn) \<and> (\<forall>nm \<in> set (dir_names dn). CHR ''/'' \<notin> set nm)"
    and r: "basename root \<noteq> ?b"
    and e: "\<not> os_path_isdir fs cwd (os_path_join3 root m ?b)"
  have "\<forall>x \<in> set (map fst (os_walk_str fs cwd root)). basename x \<noteq> ?b"
  proof (cases "os_stat fs cwd root")
    case None
    then show ?thesis
      by (simp add: os_walk_str_def)
  next
    case (Some dn)
    with a have b: "?b \<notin> set (dir_names dn)" and s: "\<forall>nm \<in> set (dir_names dn). CHR ''/'' \<notin> set nm"
      by simp_all
    have "basename (fst w) \<noteq> ?b" if "w \<in> set (walk os_path_join root dn)" for w
    proof -
      from walk_roots(1) [of os_path_join root dn] that
      consider "fst w = root"
        | r' nm where "fst w = os_path_join r' nm" "nm \<in> set (dir_names dn)"
        by blast
      then show ?thesis
      proof cases
        case 1
        with r show ?thesis by simp
      next
        case 2
        with s have "basename (fst w) = nm"
          by (simp add: basename_join)
        with 2 b show ?thesis
          by auto
      qed
    qed
    with Some show ?thesis
      by (simp add: os_walk_str_def)
  qed
  then have "find (\<lambda>r. basename r = ?b) (map fst (os_walk_str fs cwd root)) = None"
    by (simp add: find_None_iff)
  with e show "locate_output_dir fs cwd root m audio = None"
    by (simp add: locate_output_dir_def Let_def)
qed

theorem locate_not_found_witness:
  "node_at (ex_job_fs ex_raw_log) [''results'', ''j1'', ''raw''] = Some ex_raw_log
   \<and> dir_names ex_raw_log = [''logs'']
   \<and> \<not> is_dir (ex_job_fs ex_raw_log) ([''results'', ''j1'', ''raw''] @ [MODEL_NAME, ''a''])
   \<and> locate_model_dir (ex_job_fs ex_raw_log) [''results'', ''j1'', ''raw''] ''a''
       = Inl (RuntimeError ''Could not locate Demucs output folder.'')
   \<and> collect (ex_job_fs ex_raw_log) [''results'', ''j1''] [''results'', ''j1'', ''raw''] ''a''
       = (Inl (RuntimeError ''Could not locate Demucs output folder.''), ex_job_fs ex_raw_log, [])
   \<and> os_stat (ex_job_fs ex_raw_log) [] ''/results/j1/raw'' = Some ex_raw_log
   \<and> path_stem ''/uploads/a.mp3'' = ''a''
   \<and> CHR ''/'' \<notin> set ''logs''
   \<and> basename ''/results/j1/raw'' \<noteq> path_stem ''/uploads/a.mp3''
   \<and> \<not> os_path_isdir (ex_job_fs ex_raw_log) []
         (os_path_join3 ''/results/j1/raw'' ''htdemucs_ft'' (path_stem ''/uploads/a.mp3''))
   \<and> locate_output_dir (ex_job_fs ex_raw_log) [] ''/results/j1/raw'' ''htdemucs_ft''
        ''/uploads/a.mp3'' = None"
proof -
  have w: "node_at (ex_job_fs ex_raw_log) [''results'', ''j1'', ''raw''] = Some ex_raw_log"
    "os_stat (ex_job_fs ex_raw_log) [] ''/results/j1/raw'' = Some ex_raw_log"
    by (simp_all add: fs_eval ex_eval ex_raw_log_def)
  have l: "dir_names ex_raw_log = [''logs'']" "path_stem ''/uploads/a.mp3'' = ''a''"
    by (simp_all add: str_eval ex_raw_log_def)
  have n: "\<forall>n. node_at (ex_job_fs ex_raw_log) [''results'', ''j1'', ''raw''] = Some n \<longrightarrow>
         ''a'' \<notin> set (dir_names n)"
    by (simp add: fs_eval ex_eval ex_raw_log_def)
  have e: "\<not> is_dir (ex_job_fs ex_raw_log) ([''results'', ''j1'', ''raw''] @ [MODEL_NAME, ''a''])"
    by (simp add: fs_eval ex_eval ex_raw_log_def)
  have dn: "\<forall>dn. os_stat (ex_job_fs ex_raw_log) [] ''/results/j1/raw'' = Some dn \<longrightarrow>
           path_stem ''/uploads/a.mp3'' \<notin> set (dir_names dn)
           \<and> (\<forall>nm \<in> set (dir_names dn). CHR ''/'' \<notin> set nm)"
    by (simp add: fs_eval str_eval ex_eval ex_raw_log_def)
  have b: "basename ''/results/j1/raw'' \<noteq> path_stem ''/uploads/a.mp3''"
    by (simp add: str_eval)
  have de: "\<not> os_path_isdir (ex_job_fs ex_raw_log) []
         (os_path_join3 ''/results/j1/raw'' ''htdemucs_ft'' (path_stem ''/uploads/a.mp3''))"
    by (simp add: fs_eval str_eval ex_eval ex_raw_log_def)
  note c = locate_not_found [of "ex_job_fs ex_raw_log" "[''results'', ''j1'', ''raw'']" "''a''"
      "[''results'', ''j1'']" "[]" "''/results/j1/raw''" "''/uploads/a.mp3''" "''htdemucs_ft''"]
  from c [THEN conjunct1, THEN mp, THEN mp, OF n e]
    c [THEN conjunct2, THEN mp, THEN mp, THEN mp, OF dn b de] w l e b de
  show ?thesis
    by simp
qed

text \<open>
  The desktop locator on the empty output root \<^verbatim>\<open>/song\<close> and the audio file
  \<^verbatim>\<open>/music/song.mp3\<close>: nothing lies below the root, and the result is the root itself.
\<close>

theorem desktop_root_named_counterexample:
  "os_stat ex_song_fs [] ''/song'' = Some (Dir [])
   \<and> path_stem ''/music/song.mp3'' = ''song''
   \<and> ''song'' \<notin> set (dir_names (Dir []))
   \<and> \<not> (\<exists>p es. p \<noteq> [] \<and> lookup (Dir []) p = Some (Dir es))
   \<and> \<not> os_path_isdir ex_song_fs [] (os_path_join3 ''/song'' MODEL (path_stem ''/music/song.mp3''))
   \<and> locate_output_dir ex_song_fs [] ''/song'' MODEL ''/music/song.mp3'' = Some ''/song''"
proof -
  have "lookup (Dir []) p \<noteq> Some (Dir es)" if "p \<noteq> []" for p es
    using that by (cases p) auto
  then have "\<not> (\<exists>p es. p \<noteq> [] \<and> lookup (Dir []) p = Some (Dir es))"
    by blast
  then show ?thesis
    by (simp add: locate_output_dir_def fs_eval str_eval ex_eval ex_song_fs_def)
qed

subsection \<open>Lookups after a write\<close>

lemma lookup_append:
  "lookup n (a @ b) = (case lookup n a of None \<Rightarrow> None | Some m \<Rightarrow> lookup m b)"
proof (induction a arbitrary: n)
  case Nil
  then show ?case by simp
next
  case (Cons k ks)
  then show ?case
    by (cases n) (auto split: option.splits)
qed

lemma resolve_plain:
  "plain p \<Longrightarrow> resolve fs cur p = map_option (\<lambda>n. cur @ p) (lookup fs (cur @ p))"
proof (induction p arbitrary: cur)
  case Nil
  then show ?case by (simp add: map_option_case)
next
  case (Cons c cs)
  then have c: "c \<noteq> []" "c \<noteq> ''.''" "c \<noteq> ''..''" and cs: "plain cs"
    by (simp_all add: plain_def)
  show ?case
  proof (cases "lookup fs cur")
    case None
    then show ?thesis
      by (simp add: lookup_append)
  next
    case (Some n)
    show ?thesis
    proof (cases n)
      case (File x)
      with Some show ?thesis
        by (simp add: lookup_append)
    next
      case (Dir es)
      with Some c Cons.IH [OF cs, of "cur @ [c]"] show ?thesis
        by simp
    qed
  qed
qed

lemma node_at_plain: "plain p \<Longrightarrow> node_at fs p = lookup fs p"
  by (simp add: node_at_def resolve_plain split: option.splits)

lemma is_dir_plain: "plain p \<Longrightarrow> is_dir fs p = (\<exists>es. lookup fs p = Some (Dir es))"
  by (auto simp: is_dir_def node_at_plain split: option.splits node.splits)

lemma put_deep:
  "ks \<noteq> [] \<Longrightarrow> put (Dir es) (k # ks) n =
     (case map_of es k of None \<Rightarrow> Dir es | Some ch \<Rightarrow> Dir (AList.update k (put ch ks n) es))"
  by (cases ks) (simp_all split: option.splits)

lemma put_same: "lookup fs t = Some n \<Longrightarrow> put fs t n = fs"
proof (induction t arbitrary: fs)
  case Nil
  then show ?case by simp
next
  case (Cons k ks)
  then obtain es where fs: "fs = Dir es"
    by (cases fs) auto
  with Cons.prems obtain ch where ch: "map_of es k = Some ch" "lookup ch ks = Some n"
    by (auto split: option.splits)
  show ?case
  proof (cases "ks = []")
    case True
    with ch fs show ?thesis
      by (simp add: update_triv)
  next
    case False
    with ch fs Cons.IH [OF ch(2)] show ?thesis
      by (simp add: put_deep update_triv)
  qed
qed

lemma lookup_put_here:
  "lookup fs p = Some (Dir es) \<Longrightarrow> lookup (put fs (p @ [k]) n) (p @ [k]) = Some n"
proof (induction p arbitrary: fs)
  case Nil
  then show ?case
    by (simp add: update_conv')
next
  case (Cons c cs)
  then obtain es0 where fs: "fs = Dir es0"
    by (cases fs) auto
  with Cons.prems obtain ch where ch: "map_of es0 c = Some ch" "lookup ch cs = Some (Dir es)"
    by (auto split: option.splits)
  with fs Cons.IH [OF ch(2)] show ?case
    by (simp add: put_deep update_conv')
qed

lemma lookup_put_other:
  "x \<noteq> y \<Longrightarrow> lookup (put fs (a @ x # xs) n) (a @ y # ys) = lookup fs (a @ y # ys)"
proof (induction a arbitrary: fs)
  case Nil
  show ?case
  proof (cases fs)
    case (File c)
    then show ?thesis by simp
  next
    case (Dir es)
    with Nil show ?thesis
      by (cases xs) (auto simp: update_conv' split: option.splits)
  qed
next
  case (Cons c cs)
  show ?case
  proof (cases fs)
    case (File c)
    then show ?thesis by simp
  next
    case (Dir es)
    with Cons show ?thesis
      by (auto simp: put_deep update_conv' split: option.splits)
  qed
qed

lemma lookup_put_above:
  "lookup fs p = Some (Dir es) \<Longrightarrow> \<exists>es'. lookup (put fs (p @ k # ks) n) p = Some (Dir es')"
proof (induction p arbitrary: fs)
  case Nil
  then show ?case
    by (cases ks) (auto split: option.splits)
next
  case (Cons c cs)
  then obtain es0 where fs: "fs = Dir es0"
    by (cases fs) auto
  with Cons.prems obtain ch where ch: "map_of es0 c = Some ch" "lookup ch cs = Some (Dir es)"
    by (auto split: option.splits)
  with fs Cons.IH [OF ch(2)] show ?case
    by (simp add: put_deep update_conv')
qed

lemma lookup_parent_dir:
  "lookup fs (p @ [k]) = Some n \<Longrightarrow> \<exists>es. lookup fs p = Some (Dir es)"
  by (cases "lookup fs p"; cases "the (lookup fs p)") (auto simp: lookup_append)

lemma plain_butlast: "plain t \<Longrightarrow> plain (butlast t)"
  by (auto simp: plain_def dest: in_set_butlastD)

lemma plain_append: "plain (a @ b) = (plain a \<and> plain b)"
  by (auto simp: plain_def)

lemma resolve_new_plain:
  assumes "plain t" "t \<noteq> []"
  shows "resolve_new fs t =
     (if lookup fs t \<noteq> None \<or> (\<exists>es. lookup fs (butlast t) = Some (Dir es)) then Some t else None)"
proof -
  from assms(2) have t: "butlast t @ [last t] = t"
    by simp
  show ?thesis
    using assms plain_butlast [OF assms(1)]
    by (auto simp: resolve_new_def resolve_plain t split: option.splits node.splits)
qed

lemma copyfile_InrD:
  assumes "plain src" "plain t" "t \<noteq> []" "copyfile fs src t = Inr fs'"
  shows "\<exists>c es. lookup fs src = Some (File c) \<and> lookup fs (butlast t) = Some (Dir es)
           \<and> (\<forall>es'. lookup fs t \<noteq> Some (Dir es')) \<and> fs' = put fs t (File c)"
proof -
  from assms(3) have t: "butlast t @ [last t] = t"
    by simp
  from assms(4) obtain c where c: "lookup fs src = Some (File c)"
    by (auto simp: copyfile_def node_at_plain [OF assms(1)] split: if_splits option.splits node.splits)
  from assms(4) c obtain q where q: "resolve_new fs t = Some q"
    by (auto simp: copyfile_def node_at_plain [OF assms(1)] split: if_splits option.splits node.splits)
  with assms have qt: "q = t" and ex: "lookup fs t \<noteq> None \<or> (\<exists>es. lookup fs (butlast t) = Some (Dir es))"
    by (auto simp: resolve_new_plain split: if_splits)
  from assms(4) c q qt have nd: "\<forall>es'. lookup fs t \<noteq> Some (Dir es')" and fs': "fs' = put fs t (File c)"
    by (auto simp: copyfile_def node_at_plain [OF assms(1)] split: if_splits option.splits node.splits)
  from ex have "\<exists>es. lookup fs (butlast t) = Some (Dir es)"
  proof
    assume "lookup fs t \<noteq> None"
    then obtain n where "lookup fs (butlast t @ [last t]) = Some n"
      by (auto simp: t)
    then show ?thesis
      by (rule lookup_parent_dir)
  qed
  with c nd fs' show ?thesis
    by blast
qed

lemma copyfile_same:
  assumes "plain src" "plain t" "t \<noteq> []" "src \<noteq> t"
    and "lookup fs src = Some (File c)" "lookup fs t = Some (File c)"
  shows "copyfile fs src t = Inr fs"
  using assms
  by (simp add: copyfile_def node_at_plain resolve_plain resolve_new_plain put_same)

lemma name_of_plain: "plain p \<Longrightarrow> p \<noteq> [] \<Longrightarrow> plain [name_of p]"
  by (simp add: plain_def name_of_def)

lemma plain_target: "plain src \<Longrightarrow> src \<noteq> [] \<Longrightarrow> plain dst \<Longrightarrow> plain (target fs src dst)"
  using name_of_plain [of src] by (simp add: target_def plain_append)

lemma copy2_copied:
  assumes "plain (a @ x # xs)" "plain (a @ [y])" "x \<noteq> y"
    and "copied fs (a @ x # xs) (a @ [y])"
  shows "copy2 fs (a @ x # xs) (a @ [y]) = Inr fs"
proof -
  let ?src = "a @ x # xs" and ?dst = "a @ [y]"
  have t: "plain (target fs ?src ?dst)" "target fs ?src ?dst \<noteq> []"
    using assms(1,2) by (simp_all add: plain_target) (simp add: target_def)
  have ne: "?src \<noteq> target fs ?src ?dst"
    using assms(3) by (auto simp: target_def)
  from assms(4) obtain c where "lookup fs ?src = Some (File c)"
    "lookup fs (target fs ?src ?dst) = Some (File c)"
    by (auto simp: copied_def)
  from copyfile_same [OF assms(1) t ne this] show ?thesis
    by (simp add: copy2_def target_def)
qed

lemma copy2_establishes:
  assumes "plain (a @ x # xs)" "plain (a @ [y])" "x \<noteq> y"
    and "copy2 fs (a @ x # xs) (a @ [y]) = Inr fs1"
  shows "copied fs1 (a @ x # xs) (a @ [y])
         \<and> (\<exists>ys n. fs1 = put fs (a @ y # ys) n)"
proof -
  let ?src = "a @ x # xs" and ?dst = "a @ [y]"
  let ?t = "target fs ?src ?dst"
  have t: "plain ?t" "?t \<noteq> []"
    using assms(1,2) by (simp_all add: plain_target) (simp add: target_def)
  from assms(4) have "copyfile fs ?src ?t = Inr fs1"
    by (simp add: copy2_def target_def)
  from copyfile_InrD [OF assms(1) t this]
  obtain c es where c: "lookup fs ?src = Some (File c)"
    and par: "lookup fs (butlast ?t) = Some (Dir es)"
    and nd: "\<forall>es'. lookup fs ?t \<noteq> Some (Dir es')"
    and fs1: "fs1 = put fs ?t (File c)"
    by blast
  obtain ys where ys: "?t = a @ y # ys"
    by (cases "is_dir fs ?dst") (auto simp: target_def)
  have src1: "lookup fs1 ?src = Some (File c)"
    using c assms(3) by (simp add: fs1 ys lookup_put_other)
  from lookup_put_here [OF par, of "last ?t" "File c"] t(2)
  have t1: "lookup fs1 ?t = Some (File c)"
    by (simp add: fs1)
  have "target fs1 ?src ?dst = ?t"
  proof (cases "is_dir fs ?dst")
    case True
    then obtain es0 where "lookup fs ?dst = Some (Dir es0)"
      using assms(2) by (auto simp: is_dir_plain)
    from lookup_put_above [OF this, of "name_of ?src" "[]" "File c"] True
    have "is_dir fs1 ?dst"
      using assms(2) by (simp add: fs1 target_def is_dir_plain)
    with True show ?thesis
      by (simp add: target_def)
  next
    case False
    with t1 have "lookup fs1 ?dst = Some (File c)"
      by (simp add: target_def)
    then have "\<not> is_dir fs1 ?dst"
      using assms(2) by (simp add: is_dir_plain)
    with False show ?thesis
      by (simp add: target_def)
  qed
  with src1 t1 have "copied fs1 ?src ?dst"
    by (auto simp: copied_def)
  with fs1 ys show ?thesis
    by auto
qed

lemma copied_put_other:
  assumes "plain (a @ [y])" "x \<noteq> z" "y \<noteq> z"
    and "copied fs (a @ x # xs) (a @ [y])"
  shows "copied (put fs (a @ z # zs) n) (a @ x # xs) (a @ [y])"
proof -
  let ?fs' = "put fs (a @ z # zs) n"
  have d: "lookup ?fs' (a @ [y]) = lookup fs (a @ [y])"
    using assms(3) lookup_put_other [of z y fs a zs n "[]"] by simp
  then have "is_dir ?fs' (a @ [y]) = is_dir fs (a @ [y])"
    using assms(1) by (simp add: is_dir_plain)
  then have t: "target ?fs' (a @ x # xs) (a @ [y]) = target fs (a @ x # xs) (a @ [y])"
    by (simp add: target_def)
  have "lookup ?fs' (target fs (a @ x # xs) (a @ [y])) = lookup fs (target fs (a @ x # xs) (a @ [y]))"
    using assms(3) lookup_put_other [of z y fs a zs n] by (simp add: target_def)
  moreover have "lookup ?fs' (a @ x # xs) = lookup fs (a @ x # xs)"
    using assms(2) lookup_put_other [of z x fs a zs n xs] by simp
  ultimately show ?thesis
    using assms(4) by (simp add: copied_def t)
qed

subsection \<open>Result publisher\<close>

lemma published_name:
  "CHR ''_'' \<in> set n \<Longrightarrow> n \<noteq> ''raw'' \<and> plain [n]"
  by (auto simp: plain_def)

text \<open>
  The sources that the job hands to the publish step lie in the staging tree: the
  located directory is below the output root, and the classifier returns entries of
  that directory.
\<close>

lemma walk_roots_below:
  "\<forall>w \<in> set (walk (\<lambda>p nm. p @ [nm]) r n). \<exists>t. fst w = r @ t"
  "\<forall>w \<in> set (walk_sub (\<lambda>p nm. p @ [nm]) r es). \<exists>t. fst w = r @ t"
proof (induction "\<lambda>(p::path) (nm::string). p @ [nm]" r n and "\<lambda>(p::path) (nm::string). p @ [nm]" r es
    rule: walk_walk_sub.induct)
  case (1 r c)
  then show ?case by simp
next
  case (2 r es)
  then show ?case by simp
next
  case (3 r)
  then show ?case by simp
next
  case (4 r e es)
  then show ?case
    by (auto simp: ball_Un)
qed

lemma search_fold_below:
  "\<forall>w \<in> set ws. \<exists>t. fst w = r @ t \<Longrightarrow> acc = None \<or> (\<exists>t. acc = Some (r @ t @ [b])) \<Longrightarrow>
     foldl (search_step b) acc ws = None \<or> (\<exists>t. foldl (search_step b) acc ws = Some (r @ t @ [b]))"
proof (induction ws arbitrary: acc)
  case Nil
  then show ?case by simp
next
  case (Cons w ws)
  obtain r' ds fs where w: "w = (r', ds, fs)"
    by (cases w)
  with Cons.prems(1) obtain t where "r' = r @ t"
    by auto
  with Cons.prems(2) have "search_step b acc w = None \<or> (\<exists>t. search_step b acc w = Some (r @ t @ [b]))"
    by (auto simp: w search_step_eq)
  with Cons.IH [of "search_step b acc w"] Cons.prems(1) show ?case
    by simp
qed

lemma locate_below_out_root:
  assumes "locate_model_dir fs out_root base = Inr model_dir"
  shows "\<exists>t. model_dir = out_root @ t \<and> t \<noteq> []"
proof (cases "is_dir fs (out_root @ [MODEL_NAME, base])")
  case True
  with assms show ?thesis
    by (auto simp: locate_model_dir_def)
next
  case False
  have "\<forall>w \<in> set (os_walk fs out_root). \<exists>t. fst w = out_root @ t"
  proof (cases "node_at fs out_root")
    case None
    then show ?thesis
      by (simp add: os_walk_def)
  next
    case (Some n)
    with walk_roots_below(1) [of out_root n] show ?thesis
      by (simp add: os_walk_def)
  qed
  from search_fold_below [OF this, of None base] False assms show ?thesis
    by (auto simp: locate_model_dir_def search_walk_def split: option.splits)
qed

lemma classified_in_staging:
  assumes "locate_model_dir fs (job_dir @ [''raw'']) base = Inr model_dir"
    and "pick_stems (\<lambda>fn. model_dir @ [fn]) listing = (Some vocals, Some inst)"
  shows "\<exists>vt it. vocals = job_dir @ ''raw'' # vt \<and> inst = job_dir @ ''raw'' # it"
proof -
  from locate_below_out_root [OF assms(1)] obtain t where "model_dir = job_dir @ ''raw'' # t"
    by auto
  with pick_stems_full [of "\<lambda>fn. model_dir @ [fn]" listing] assms(2) show ?thesis
    by auto
qed

text \<open>
  C8. Publishing is idempotent: when the publish step has succeeded on sources of the
  staging tree \<^verbatim>\<open>raw\<close> of the job folder (plain paths, as the job builds them for an
  upload), running it again on the same sources in the file system it left succeeds
  with the same two destination paths and leaves that file system exactly as it is,
  so the destinations keep their content and no other entry appears.
\<close>

theorem publish_idempotent:
  assumes "plain (job_dir @ ''raw'' # vt)" and "plain (job_dir @ ''raw'' # it)"
    and "publish fs job_dir base (job_dir @ ''raw'' # vt) (job_dir @ ''raw'' # it)
           = (Inr (vocals_out, inst_out), fs')"
  shows "publish fs' job_dir base (job_dir @ ''raw'' # vt) (job_dir @ ''raw'' # it)
           = (Inr (vocals_out, inst_out), fs')"
proof -
  let ?vocals = "job_dir @ ''raw'' # vt" and ?inst = "job_dir @ ''raw'' # it"
  let ?n1 = "base @ ''_vocals'' @ suffix ?vocals" and ?n2 = "base @ ''_instrumental'' @ suffix ?inst"
  have n1: "''raw'' \<noteq> ?n1" "plain [?n1]" and n2: "''raw'' \<noteq> ?n2" "plain [?n2]"
    using published_name [of ?n1] published_name [of ?n2] by auto
  have ne: "?n1 \<noteq> ?n2"
    by simp
  from assms(1) have pj: "plain job_dir"
    by (simp add: plain_append)
  with n1 n2 have pd: "plain (job_dir @ [?n1])" "plain (job_dir @ [?n2])"
    by (simp_all add: plain_append)
  from assms(3) obtain fs1 where c1: "copy2 fs ?vocals (job_dir @ [?n1]) = Inr fs1"
    and c2: "copy2 fs1 ?inst (job_dir @ [?n2]) = Inr fs'"
    and out: "vocals_out = job_dir @ [?n1]" "inst_out = job_dir @ [?n2]"
    by (auto simp: publish_def Let_def split: sum.splits)
  from copy2_establishes [OF assms(1) pd(1) n1(1) c1]
  have v1: "copied fs1 ?vocals (job_dir @ [?n1])"
    by blast
  from copy2_establishes [OF assms(2) pd(2) n2(1) c2]
  obtain ys n where i2: "copied fs' ?inst (job_dir @ [?n2])" and fs': "fs' = put fs1 (job_dir @ ?n2 # ys) n"
    by blast
  from copied_put_other [OF pd(1) n2(1) ne v1, of ys n]
  have v2: "copied fs' ?vocals (job_dir @ [?n1])"
    by (simp add: fs')
  from copy2_copied [OF assms(1) pd(1) n1(1) v2] copy2_copied [OF assms(2) pd(2) n2(1) i2] out
  show ?thesis
    by (simp add: publish_def Let_def)
qed

theorem publish_idempotent_witness:
  "plain ([''results'', ''j1''] @ ''raw'' # [''htdemucs_ft'', ''a'', ''vocals.mp3''])
   \<and> plain ([''results'', ''j1''] @ ''raw'' # [''htdemucs_ft'', ''a'', ''no_vocals.mp3''])
   \<and> publish (ex_job_fs ex_raw_demucs) [''results'', ''j1''] ''a''
        ([''results'', ''j1''] @ ''raw'' # [''htdemucs_ft'', ''a'', ''vocals.mp3''])
        ([''results'', ''j1''] @ ''raw'' # [''htdemucs_ft'', ''a'', ''no_vocals.mp3''])
       = (Inr ([''results'', ''j1'', ''a_vocals.mp3''], [''results'', ''j1'', ''a_instrumental.mp3'']),
          ex_published_fs)
   \<and> publish ex_published_fs [''results'', ''j1''] ''a''
        ([''results'', ''j1''] @ ''raw'' # [''htdemucs_ft'', ''a'', ''vocals.mp3''])
        ([''results'', ''j1''] @ ''raw'' # [''htdemucs_ft'', ''a'', ''no_vocals.mp3''])
       = (Inr ([''results'', ''j1'', ''a_vocals.mp3''], [''results'', ''j1'', ''a_instrumental.mp3'']),
          ex_published_fs)"
proof -
  have p1: "plain ([''results'', ''j1''] @ ''raw'' # [''htdemucs_ft'', ''a'', ''vocals.mp3''])"
    and p2: "plain ([''results'', ''j1''] @ ''raw'' # [''htdemucs_ft'', ''a'', ''no_vocals.mp3''])"
    by (simp_all add: plain_def)
  have f: "publish (ex_job_fs ex_raw_demucs) [''results'', ''j1''] ''a''
        ([''results'', ''j1''] @ ''raw'' # [''htdemucs_ft'', ''a'', ''vocals.mp3''])
        ([''results'', ''j1''] @ ''raw'' # [''htdemucs_ft'', ''a'', ''no_vocals.mp3''])
       = (Inr ([''results'', ''j1'', ''a_vocals.mp3''], [''results'', ''j1'', ''a_instrumental.mp3'']),
          ex_published_fs)"
    by (simp add: publish_def fs_eval str_eval ex_eval ex_raw_demucs_def ex_published_fs_def)
  from publish_idempotent [OF p1 p2 f] p1 p2 f show ?thesis
    by blast
qed

end
